theory Spec2Isabelle
  imports Main "HOL-Library.Word"
begin

section \<open>Session shell plugin (agent/session/plugins/shell/shell\_unix.go)\<close>

text \<open>
  A shallow embedding of the Unix shell plugin: \<open>StartPty\<close>, \<open>Stop\<close>, \<open>SetSize\<close>,
  \<open>getUserCredentials\<close> and \<open>generateLogData\<close>.

  Go strings are byte strings, modelled as \<open>string\<close> (a list of 8-bit \<open>char\<close>).
  Go's \<open>int\<close> is taken to be 64 bits wide, \<open>uint32\<close> and \<open>uint16\<close> are words.
  A Go function either returns its tuple of results or panics; both are values of
  \<open>outcome\<close>. Returned errors are values of \<open>error\<close>; an error of the operating
  system is represented by its message.
  The functions run in a process state that they pass on, against a host whose answers
  are parameters; every interaction with the host is appended to a trace.
  Calls to the logger (\<open>log.Info\<close>, \<open>log.Errorf\<close>) have no effect on any result and
  are left out.
\<close>

subsection \<open>Go library functions used by the plugin\<close>

type_synonym uint32 = "32 word"
type_synonym uint16 = "16 word"

datatype numerr = ErrSyntax | ErrRange

datatype error =
    ExecError string          \<comment> \<open>the error of \<open>cmd.Output()\<close>, with its message\<close>
  | NumError string numerr    \<comment> \<open>\<open>*strconv.NumError\<close> of \<open>Atoi\<close>: the input and the cause\<close>
  | ErrorString string        \<comment> \<open>\<open>errors.New\<close>, \<open>fmt.Errorf\<close>\<close>

datatype panic = IndexOutOfRange nat nat  \<comment> \<open>index, length\<close>

datatype 'a outcome = Returns 'a | Panics panic

text \<open>\<open>strings.Split(s, sep)\<close> for a separator of one byte: one more piece than
  there are separators; \<open>Split("", sep)\<close> is the single empty piece.\<close>

fun Split :: "string \<Rightarrow> char \<Rightarrow> string list" where
  "Split [] sep = [[]]"
| "Split (c # cs) sep =
     (if c = sep then [] # Split cs sep
      else (case Split cs sep of
              [] \<Rightarrow> [[c]]
            | piece # pieces \<Rightarrow> (c # piece) # pieces))"

text \<open>\<open>unicode.IsSpace\<close>: the ASCII white space and the UTF-8 encodings of the other
  runes with the White\_Space property.\<close>

definition asciiSpace :: "char \<Rightarrow> bool" where
  "asciiSpace c = (of_char c \<in> {9, 10, 11, 12, 13, 32 :: nat})"

definition spaceRunes2 :: "string list" where
  "spaceRunes2 = [[CHR 0xC2, CHR 0x85], [CHR 0xC2, CHR 0xA0]]"

definition spaceRunes3 :: "string list" where
  "spaceRunes3 =
     [[CHR 0xE1, CHR 0x9A, CHR 0x80],
      [CHR 0xE2, CHR 0x80, CHR 0x80], [CHR 0xE2, CHR 0x80, CHR 0x81],
      [CHR 0xE2, CHR 0x80, CHR 0x82], [CHR 0xE2, CHR 0x80, CHR 0x83],
      [CHR 0xE2, CHR 0x80, CHR 0x84], [CHR 0xE2, CHR 0x80, CHR 0x85],
      [CHR 0xE2, CHR 0x80, CHR 0x86], [CHR 0xE2, CHR 0x80, CHR 0x87],
      [CHR 0xE2, CHR 0x80, CHR 0x88], [CHR 0xE2, CHR 0x80, CHR 0x89],
      [CHR 0xE2, CHR 0x80, CHR 0x8A],
      [CHR 0xE2, CHR 0x80, CHR 0xA8], [CHR 0xE2, CHR 0x80, CHR 0xA9],
      [CHR 0xE2, CHR 0x80, CHR 0xAF], [CHR 0xE2, CHR 0x81, CHR 0x9F],
      [CHR 0xE3, CHR 0x80, CHR 0x80]]"

text \<open>The width in bytes of the white-space rune a string starts with (ends with);
  0 when it starts (ends) with none.\<close>

definition firstSpaceWidth :: "string \<Rightarrow> nat" where
  "firstSpaceWidth s =
     (if s = [] then 0
      else if asciiSpace (hd s) then 1
      else if take 2 s \<in> set spaceRunes2 then 2
      else if take 3 s \<in> set spaceRunes3 then 3
      else 0)"

definition lastSpaceWidth :: "string \<Rightarrow> nat" where
  "lastSpaceWidth s =
     (if s = [] then 0
      else if asciiSpace (last s) then 1
      else if drop (length s - 2) s \<in> set spaceRunes2 then 2
      else if drop (length s - 3) s \<in> set spaceRunes3 then 3
      else 0)"

function TrimLeftSpace :: "string \<Rightarrow> string" where
  "TrimLeftSpace s =
     (if firstSpaceWidth s = 0 then s else TrimLeftSpace (drop (firstSpaceWidth s) s))"
  by pat_completeness auto
termination
proof (relation "measure length")
  show "wf (measure (length :: string \<Rightarrow> nat))" by simp
next
  fix s :: string
  assume "firstSpaceWidth s \<noteq> 0"
  then have "0 < firstSpaceWidth s" "s \<noteq> []"
    by (auto simp: firstSpaceWidth_def)
  then show "(drop (firstSpaceWidth s) s, s) \<in> measure length" by simp
qed

function TrimRightSpace :: "string \<Rightarrow> string" where
  "TrimRightSpace s =
     (if lastSpaceWidth s = 0 then s
      else TrimRightSpace (take (length s - lastSpaceWidth s) s))"
  by pat_completeness auto
termination
proof (relation "measure length")
  show "wf (measure (length :: string \<Rightarrow> nat))" by simp
next
  fix s :: string
  assume "lastSpaceWidth s \<noteq> 0"
  then have "0 < lastSpaceWidth s" "s \<noteq> []"
    by (auto simp: lastSpaceWidth_def)
  then show "(take (length s - lastSpaceWidth s) s, s) \<in> measure length" by simp
qed

declare TrimLeftSpace.simps [simp del] TrimRightSpace.simps [simp del]

text \<open>\<open>strings.TrimSpace\<close>: all leading and trailing white space removed.\<close>

definition TrimSpace :: "string \<Rightarrow> string" where
  "TrimSpace s = TrimRightSpace (TrimLeftSpace s)"

text \<open>\<open>strconv.Atoi\<close> on a 64-bit platform. Strings of fewer than 19 bytes take the
  fast path, which cannot overflow; the others go through \<open>ParseInt(s, 10, 0)\<close>, whose
  digit loop reports a range error as soon as the accumulated value leaves
  \<open>uint64\<close>, before it looks at the bytes that follow.\<close>

definition isDigit :: "char \<Rightarrow> bool" where
  "isDigit c = (48 \<le> (of_char c :: int) \<and> (of_char c :: int) \<le> 57)"

definition digitVal :: "char \<Rightarrow> int" where
  "digitVal c = of_char c - 48"

fun atoiFast :: "int \<Rightarrow> string \<Rightarrow> int option" where
  "atoiFast n [] = Some n"
| "atoiFast n (ch # s) =
     (if \<not> isDigit ch then None else atoiFast (n * 10 + digitVal ch) s)"

definition maxUint64 :: int where
  "maxUint64 = 2 ^ 64 - 1"

fun parseUintLoop :: "int \<Rightarrow> string \<Rightarrow> numerr + int" where
  "parseUintLoop n [] = Inr n"
| "parseUintLoop n (c # s) =
     (if \<not> isDigit c then Inl ErrSyntax
      else if n \<ge> maxUint64 div 10 + 1 then Inl ErrRange
      else if n * 10 + digitVal c > maxUint64 then Inl ErrRange
      else parseUintLoop (n * 10 + digitVal c) s)"

definition ParseUint :: "string \<Rightarrow> numerr + int" where
  "ParseUint s = (if s = [] then Inl ErrSyntax else parseUintLoop 0 s)"

definition ParseInt :: "string \<Rightarrow> error + int" where
  "ParseInt s0 =
     (if s0 = [] then Inl (NumError s0 ErrSyntax)
      else
        let neg = (hd s0 = CHR ''-'');
            s = (if hd s0 = CHR ''+'' \<or> hd s0 = CHR ''-'' then tl s0 else s0)
        in case ParseUint s of
             Inl ErrSyntax \<Rightarrow> Inl (NumError s0 ErrSyntax)
           | Inl ErrRange \<Rightarrow> Inl (NumError s0 ErrRange)
           | Inr un \<Rightarrow>
               if \<not> neg \<and> un \<ge> 2 ^ 63 then Inl (NumError s0 ErrRange)
               else if neg \<and> un > 2 ^ 63 then Inl (NumError s0 ErrRange)
               else Inr (if neg then - un else un))"

definition Atoi :: "string \<Rightarrow> error + int" where
  "Atoi s0 =
     (if 0 < length s0 \<and> length s0 < 19 then
        let s = (if hd s0 = CHR ''-'' \<or> hd s0 = CHR ''+'' then tl s0 else s0)
        in if s = [] then Inl (NumError s0 ErrSyntax)
           else case atoiFast 0 s of
                  None \<Rightarrow> Inl (NumError s0 ErrSyntax)
                | Some n \<Rightarrow> Inr (if hd s0 = CHR ''-'' then - n else n)
      else ParseInt s0)"

text \<open>\<open>fmt.Sprintf("%d", n)\<close> for an \<open>int\<close>.\<close>

function showDigits :: "int \<Rightarrow> string" where
  "showDigits n =
     (if n < 10 then [char_of (48 + n)]
      else showDigits (n div 10) @ [char_of (48 + n mod 10)])"
  by pat_completeness auto
termination
  by (relation "measure nat") auto

declare showDigits.simps [simp del]

definition showInt :: "int \<Rightarrow> string" where
  "showInt i = (if i < 0 then CHR ''-'' # showDigits (- i) else showDigits i)"

subsection \<open>Configuration, host and process state\<close>

text \<open>Constants of other packages of the agent (\<open>appconfig\<close>, \<open>utility\<close>,
  \<open>mgsConfig\<close>) that the plugin reads; they are parameters of the model.\<close>

record config =
  DefaultRunAsUserName :: string
  DefaultSessionLogger :: string
  ShellPluginCommandName :: string
  ShellPluginCommandArgs :: "string list"
  ScreenBufferSize :: int
  Exit :: string

definition termEnvVariable :: string where
  "termEnvVariable = ''TERM=xterm-256color''"

definition langEnvVariable :: string where
  "langEnvVariable = ''LANG=C.UTF-8''"

definition langEnvVariableKey :: string where
  "langEnvVariableKey = ''LANG''"

definition startRecordSessionCmd :: string where
  "startRecordSessionCmd = ''script''"

definition newLineCharacter :: string where
  "newLineCharacter = [CHR 0x0A]"

definition homeEnvVariable :: "config \<Rightarrow> string" where
  "homeEnvVariable cfg = ''HOME=/home/'' @ DefaultRunAsUserName cfg"

type_synonym handle = nat  \<comment> \<open>an \<open>*os.File\<close>; the nil pointer is \<open>None\<close>\<close>

record Winsize =
  Rows :: uint16
  Cols :: uint16
  X :: uint16
  Y :: uint16

record Credential =
  Uid :: uint32
  Gid :: uint32
  Groups :: "uint32 list"
  NoSetGroups :: bool

text \<open>\<open>exec.Cmd\<close>: the argument vector (the program name first), the environment and
  the credential of \<open>SysProcAttr\<close> (\<open>None\<close> while \<open>SysProcAttr\<close> is nil).\<close>

record Cmd =
  Args :: "string list"
  Env :: "string list"
  SysProcAttrCredential :: "Credential option"

definition Command :: "string \<Rightarrow> string list \<Rightarrow> Cmd" where
  "Command name arg = \<lparr>Args = name # arg, Env = [], SysProcAttrCredential = None\<rparr>"

text \<open>Every interaction with the host is recorded, in order.\<close>

datatype event =
    EvCreateLocalAdminUser
  | EvOutput "string list"            \<comment> \<open>an external command run to completion\<close>
  | EvPtyStart Cmd "handle option"    \<comment> \<open>\<open>pty.Start\<close> and the handle it returned\<close>
  | EvWrite "handle option" string
  | EvClose "handle option"
  | EvSetsize "handle option" Winsize
  | EvSleep nat                       \<comment> \<open>seconds\<close>

text \<open>What the host answers. The answers may change over time: they are indexed by
  the number of interactions that came before.\<close>

record host =
  environ :: "string list"
  cmdOutput :: "nat \<Rightarrow> string list \<Rightarrow> string + string"
  ptyStartError :: "nat \<Rightarrow> Cmd \<Rightarrow> string option"
  setsizeError :: "nat \<Rightarrow> string option"
  closeError :: "nat \<Rightarrow> string option"

text \<open>The state of the process: the package variable \<open>ptyFile\<close>, the open PTY master
  files, the window sizes applied to their devices (the latest first), the children
  started on a PTY (this package never waits for one or signals one), the next fresh
  file, and the trace.\<close>

record proc =
  ptyFile :: "handle option"
  openFiles :: "handle list"
  winsizes :: "(handle \<times> Winsize) list"
  children :: "(handle \<times> Cmd) list"
  nextHandle :: handle
  trace :: "event list"

definition initial :: proc where
  "initial = \<lparr>ptyFile = None, openFiles = [], winsizes = [], children = [],
     nextHandle = 0, trace = []\<rparr>"

definition now :: "proc \<Rightarrow> nat" where
  "now s = length (trace s)"

definition record_event :: "event \<Rightarrow> proc \<Rightarrow> proc" where
  "record_event e s = s\<lparr>trace := trace s @ [e]\<rparr>"

text \<open>\<open>os.Getenv\<close>: the value of the first entry \<open>key=value\<close> of the environment
  (the key ends at the first \<open>=\<close>), the empty string when there is none.\<close>

definition definesKey :: "string \<Rightarrow> string \<Rightarrow> bool" where
  "definesKey key e = (CHR ''='' \<in> set e \<and> takeWhile (\<lambda>c. c \<noteq> CHR ''='') e = key)"

definition Getenv :: "host \<Rightarrow> string \<Rightarrow> string" where
  "Getenv h key =
     (case find (definesKey key) (environ h) of
        None \<Rightarrow> []
      | Some e \<Rightarrow> drop (length key + 1) e)"

text \<open>\<open>exec.Command(name, arg...).Output()\<close>: the standard output of the command, or
  the error of running it.\<close>

definition Output :: "host \<Rightarrow> string list \<Rightarrow> proc \<Rightarrow> (string + string) \<times> proc" where
  "Output h argv s = (cmdOutput h (now s) argv, record_event (EvOutput argv) s)"

text \<open>Modelled from the spec: \<open>utility.SessionUtil.CreateLocalAdminUser\<close> is not
  among the sources. It ensures that the restricted local user exists; it is an external
  collaborator, and the plugin ignores its result.\<close>

definition CreateLocalAdminUser :: "proc \<Rightarrow> proc" where
  "CreateLocalAdminUser s = record_event EvCreateLocalAdminUser s"

text \<open>Modelled from the spec: \<open>pty.Start\<close> of the vendored PTY package is not among
  the sources. It allocates a PTY device, attaches the child's standard streams to the
  subordinate side and starts the child; it returns the master file, or nil and an
  error.\<close>

definition pty_Start :: "host \<Rightarrow> Cmd \<Rightarrow> proc \<Rightarrow> (handle option \<times> string option) \<times> proc" where
  "pty_Start h cmd s =
     (case ptyStartError h (now s) cmd of
        Some msg \<Rightarrow> ((None, Some msg), record_event (EvPtyStart cmd None) s)
      | None \<Rightarrow>
          let f = nextHandle s
          in ((Some f, None),
              record_event (EvPtyStart cmd (Some f))
                (s\<lparr>openFiles := f # openFiles s,
                   children := children s @ [(f, cmd)],
                   nextHandle := Suc f\<rparr>)))"

text \<open>\<open>(*os.File).Close\<close>: an error for the nil file and for a file that is closed
  already; an open file is closed even when the system call reports an error.\<close>

definition File_Close :: "host \<Rightarrow> handle option \<Rightarrow> proc \<Rightarrow> string option \<times> proc" where
  "File_Close h fo s =
     (case fo of
        None \<Rightarrow> (Some ''invalid argument'', record_event (EvClose fo) s)
      | Some f \<Rightarrow>
          if f \<in> set (openFiles s) then
            (closeError h (now s),
             record_event (EvClose fo) (s\<lparr>openFiles := removeAll f (openFiles s)\<rparr>))
          else (Some ''file already closed'', record_event (EvClose fo) s))"

text \<open>\<open>(*os.File).Write\<close>; the plugin discards its results.\<close>

definition File_Write :: "handle option \<Rightarrow> string \<Rightarrow> proc \<Rightarrow> proc" where
  "File_Write f b s = record_event (EvWrite f b) s"

definition Sleep :: "nat \<Rightarrow> proc \<Rightarrow> proc" where
  "Sleep secs s = record_event (EvSleep secs) s"

text \<open>Modelled from the spec: \<open>pty.Setsize\<close> of the vendored PTY package is not among
  the sources. The resize fails if no active session exists (the file is nil or not
  open) or the underlying resize call fails; otherwise the window size is applied to
  the device.\<close>

definition pty_Setsize :: "host \<Rightarrow> handle option \<Rightarrow> Winsize \<Rightarrow> proc \<Rightarrow> string option \<times> proc" where
  "pty_Setsize h fo ws s =
     (case fo of
        None \<Rightarrow> (Some ''bad file descriptor'', record_event (EvSetsize fo ws) s)
      | Some f \<Rightarrow>
          if f \<notin> set (openFiles s) then
            (Some ''file already closed'', record_event (EvSetsize fo ws) s)
          else (case setsizeError h (now s) of
                  Some msg \<Rightarrow> (Some msg, record_event (EvSetsize fo ws) s)
                | None \<Rightarrow>
                    (None, record_event (EvSetsize fo ws)
                             (s\<lparr>winsizes := (f, ws) # winsizes s\<rparr>))))"

subsection \<open>The plugin\<close>

type_synonym credentials = "uint32 \<times> uint32 \<times> uint32 list \<times> error option"

definition shellCommand :: "config \<Rightarrow> string \<Rightarrow> string list" where
  \<comment> \<open>\<open>exec.Command(ShellPluginCommandName, append(ShellPluginCommandArgs, line)...)\<close>\<close>
  "shellCommand cfg line = ShellPluginCommandName cfg # (ShellPluginCommandArgs cfg @ [line])"

text \<open>The loop of \<open>getUserCredentials\<close> over \<open>groupNames[2:]\<close>. It ends with the group
  ids, with the error the function returns at once, or with the panic of reading
  index 2 of too short a record.\<close>

fun groupIdLoop ::
  "config \<Rightarrow> host \<Rightarrow> string list \<Rightarrow> uint32 list \<Rightarrow> proc \<Rightarrow> (error + uint32 list) outcome \<times> proc"
where
  "groupIdLoop cfg h [] groupIds s = (Returns (Inr groupIds), s)"
| "groupIdLoop cfg h (name # names) groupIds s =
     (case Output h (shellCommand cfg (''getent group '' @ name)) s of
        (Inl err, s1) \<Rightarrow> (Returns (Inl (ExecError err)), s1)
      | (Inr out, s1) \<Rightarrow>
          let fields = Split out CHR '':''
          in if length fields \<le> 2 then (Panics (IndexOutOfRange 2 (length fields)), s1)
             else (case Atoi (TrimSpace (fields ! 2)) of
                     Inl err \<Rightarrow> (Returns (Inl err), s1)
                   | Inr groupIdFromName \<Rightarrow>
                       groupIdLoop cfg h names (groupIds @ [word_of_int groupIdFromName]) s1))"

definition getUserCredentials :: "config \<Rightarrow> host \<Rightarrow> proc \<Rightarrow> credentials outcome \<times> proc" where
  "getUserCredentials cfg h s =
     (case Output h (shellCommand cfg (''id -u '' @ DefaultRunAsUserName cfg)) s of
        (Inl err, s1) \<Rightarrow> (Returns (0, 0, [], Some (ExecError err)), s1)
      | (Inr out, s1) \<Rightarrow>
     (case Atoi (TrimSpace out) of
        Inl err \<Rightarrow> (Returns (0, 0, [], Some err), s1)
      | Inr uid \<Rightarrow>
     (case Output h (shellCommand cfg (''id -g '' @ DefaultRunAsUserName cfg)) s1 of
        (Inl err, s2) \<Rightarrow> (Returns (0, 0, [], Some (ExecError err)), s2)
      | (Inr out, s2) \<Rightarrow>
     (case Atoi (TrimSpace out) of
        Inl err \<Rightarrow> (Returns (0, 0, [], Some err), s2)
      | Inr gid \<Rightarrow>
     (case Output h (shellCommand cfg (''groups '' @ DefaultRunAsUserName cfg)) s2 of
        (Inl err, s3) \<Rightarrow> (Returns (0, 0, [], Some (ExecError err)), s3)
      | (Inr out, s3) \<Rightarrow>
     (case groupIdLoop cfg h (drop 2 (Split out CHR '' '')) [] s3 of
        (Panics p, s4) \<Rightarrow> (Panics p, s4)
      | (Returns (Inl err), s4) \<Rightarrow> (Returns (0, 0, [], Some err), s4)
      | (Returns (Inr groupIds), s4) \<Rightarrow>
          if uid > 0 \<and> gid > 0 then
            (Returns (word_of_int uid, word_of_int gid, groupIds, None), s4)
          else (Returns (0, 0, [], Some (ErrorString ''invalid uid and gid'')), s4)))))))"

text \<open>\<open>StartPty\<close>. The command is built first, then its environment; the credentials
  are resolved only when \<open>runAsSsmUser\<close> is set. The result of \<open>pty.Start\<close> is
  assigned to \<open>ptyFile\<close> whether it is a file or nil.\<close>

definition buildCmd :: "config \<Rightarrow> host \<Rightarrow> string \<Rightarrow> Cmd" where
  "buildCmd cfg h shellCmd =
     (let cmd = (if TrimSpace shellCmd = [] then Command ''sh'' []
                 else Command ''sh'' (ShellPluginCommandArgs cfg @ [shellCmd]));
          cmd = cmd\<lparr>Env := environ h @ [termEnvVariable, homeEnvVariable cfg]\<rparr>
      in if Getenv h langEnvVariableKey = [] then cmd\<lparr>Env := Env cmd @ [langEnvVariable]\<rparr>
         else cmd)"

type_synonym started = "handle option \<times> handle option \<times> error option"

definition startCmd :: "host \<Rightarrow> Cmd \<Rightarrow> proc \<Rightarrow> started outcome \<times> proc" where
  "startCmd h cmd s =
     (case pty_Start h cmd s of
        ((f, err), s1) \<Rightarrow>
          let s2 = s1\<lparr>ptyFile := f\<rparr>
          in (case err of
                Some msg \<Rightarrow>
                  (Returns (None, None,
                     Some (ErrorString (''Failed to start pty: '' @ msg @ [CHR 0x0A]))), s2)
              | None \<Rightarrow> (Returns (ptyFile s2, ptyFile s2, None), s2)))"

definition StartPty :: "config \<Rightarrow> host \<Rightarrow> bool \<Rightarrow> string \<Rightarrow> proc \<Rightarrow> started outcome \<times> proc" where
  "StartPty cfg h runAsSsmUser shellCmd s =
     (let cmd = buildCmd cfg h shellCmd
      in if runAsSsmUser then
           (case getUserCredentials cfg h (CreateLocalAdminUser s) of
              (Panics p, s1) \<Rightarrow> (Panics p, s1)
            | (Returns (uid, gid, groups, Some err), s1) \<Rightarrow> (Returns (None, None, Some err), s1)
            | (Returns (uid, gid, groups, None), s1) \<Rightarrow>
                startCmd h
                  (cmd\<lparr>SysProcAttrCredential :=
                         Some \<lparr>Uid = uid, Gid = gid, Groups = groups, NoSetGroups = False\<rparr>\<rparr>)
                  s1)
         else startCmd h cmd s)"

definition Stop :: "host \<Rightarrow> proc \<Rightarrow> error option \<times> proc" where
  "Stop h s =
     (case File_Close h (ptyFile s) s of
        (Some msg, s1) \<Rightarrow> (Some (ErrorString (''unable to close ptyFile. '' @ msg)), s1)
      | (None, s1) \<Rightarrow> (None, s1))"

definition SetSize :: "host \<Rightarrow> uint32 \<Rightarrow> uint32 \<Rightarrow> proc \<Rightarrow> error option \<times> proc" where
  "SetSize h ws_col ws_row s =
     (let winSize = \<lparr>Rows = ucast ws_row, Cols = ucast ws_col, X = 0, Y = 0\<rparr>
      in case pty_Setsize h (ptyFile s) winSize s of
           (Some msg, s1) \<Rightarrow> (Some (ErrorString (''set pty size failed: '' @ msg)), s1)
         | (None, s1) \<Rightarrow> (None, s1))"

text \<open>\<open>generateLogData\<close>. The body runs under a deferred \<open>recover\<close> that calls
  \<open>Stop\<close> after a panic; no statement of the body can panic (writing to and closing
  a file return errors, which the body discards), so the body is a straight line.\<close>

record ShellPlugin =
  logFilePath :: string
  ipcFilePath :: string

definition generateLogData ::
  "ShellPlugin \<Rightarrow> config \<Rightarrow> host \<Rightarrow> proc \<Rightarrow> error option outcome \<times> proc"
where
  "generateLogData p cfg h s =
     (case StartPty cfg h False [] s of
        (Panics pn, s1) \<Rightarrow> (Panics pn, s1)
      | (Returns (shadowShellInput, out, Some err), s1) \<Rightarrow> (Returns (Some err), s1)
      | (Returns (shadowShellInput, out, None), s1) \<Rightarrow>
          let s2 = Sleep 5 s1;
              screenBufferSizeCmdInput =
                ''screen -h '' @ showInt (ScreenBufferSize cfg) @ newLineCharacter;
              s3 = File_Write shadowShellInput screenBufferSizeCmdInput s2;
              s4 = Sleep 5 s3;
              recordCmdInput =
                startRecordSessionCmd @ '' '' @ logFilePath p @ newLineCharacter;
              s5 = File_Write shadowShellInput recordCmdInput s4;
              s6 = Sleep 5 s5;
              loggerCmdInput =
                DefaultSessionLogger cfg @ '' '' @ ipcFilePath p @ '' '' @ ''false''
                  @ newLineCharacter;
              s7 = File_Write shadowShellInput loggerCmdInput s6;
              s8 = Sleep 60 s7;
              exitCmdInput = Exit cfg @ newLineCharacter;
              s9 = File_Write shadowShellInput exitCmdInput s8;
              s10 = Sleep 30 s9;
              s11 = File_Write shadowShellInput exitCmdInput s10;
              s12 = Sleep 5 s11;
              s13 = File_Write shadowShellInput exitCmdInput s12;
              s14 = Sleep 5 s13;
              s15 = snd (File_Close h shadowShellInput s14);
              s16 = Sleep 15 s15
          in (Returns None, s16))"

subsection \<open>Observing a run\<close>

text \<open>The events a call added to the trace, and the commands handed to \<open>pty.Start\<close>
  among a list of events.\<close>

definition newEvents :: "proc \<Rightarrow> proc \<Rightarrow> event list" where
  "newEvents s s' = drop (length (trace s)) (trace s')"

fun ptyStarts :: "event list \<Rightarrow> Cmd list" where
  "ptyStarts [] = []"
| "ptyStarts (EvPtyStart cmd fo # es) = cmd # ptyStarts es"
| "ptyStarts (e # es) = ptyStarts es"

fun startedFiles :: "event list \<Rightarrow> handle list" where
  "startedFiles [] = []"
| "startedFiles (EvPtyStart cmd (Some f) # es) = f # startedFiles es"
| "startedFiles (e # es) = startedFiles es"

text \<open>No call of \<open>pty.Start\<close> has succeeded so far.\<close>

definition unstarted :: "proc \<Rightarrow> bool" where
  "unstarted s = (startedFiles (trace s) = [])"

text \<open>The command lines of the identity queries, and a state after further queries.\<close>

definition uidQuery :: "config \<Rightarrow> string list" where
  "uidQuery cfg = shellCommand cfg (''id -u '' @ DefaultRunAsUserName cfg)"

definition gidQuery :: "config \<Rightarrow> string list" where
  "gidQuery cfg = shellCommand cfg (''id -g '' @ DefaultRunAsUserName cfg)"

definition groupsQuery :: "config \<Rightarrow> string list" where
  "groupsQuery cfg = shellCommand cfg (''groups '' @ DefaultRunAsUserName cfg)"

definition groupQuery :: "config \<Rightarrow> string \<Rightarrow> string list" where
  "groupQuery cfg name = shellCommand cfg (''getent group '' @ name)"

definition queried :: "proc \<Rightarrow> string list list \<Rightarrow> proc" where
  "queried s qs = s\<lparr>trace := trace s @ map EvOutput qs\<rparr>"

text \<open>The answer to a group query lets the loop go on to the next name: the command
  succeeded, its output has a third field, and that field parses as a number.\<close>

definition groupAnswerOk :: "string + string \<Rightarrow> bool" where
  "groupAnswerOk answer =
     (case answer of
        Inl err \<Rightarrow> False
      | Inr out \<Rightarrow>
          2 \<le> count_list out CHR '':'' \<and>
          (case Atoi (TrimSpace (Split out CHR '':'' ! 2)) of
             Inl err \<Rightarrow> False
           | Inr groupIdFromName \<Rightarrow> True))"

text \<open>A caller's sequence of calls into the package, from a given state.\<close>

datatype call =
    CallStartPty bool string
  | CallStop
  | CallSetSize uint32 uint32
  | CallGenerateLogData ShellPlugin

fun run :: "config \<Rightarrow> host \<Rightarrow> call list \<Rightarrow> proc \<Rightarrow> proc" where
  "run cfg h [] s = s"
| "run cfg h (CallStartPty runAsSsmUser shellCmd # cs) s =
     run cfg h cs (snd (StartPty cfg h runAsSsmUser shellCmd s))"
| "run cfg h (CallStop # cs) s = run cfg h cs (snd (Stop h s))"
| "run cfg h (CallSetSize ws_col ws_row # cs) s = run cfg h cs (snd (SetSize h ws_col ws_row s))"
| "run cfg h (CallGenerateLogData p # cs) s = run cfg h cs (snd (generateLogData p cfg h s))"

subsection \<open>Concrete configurations and hosts\<close>

text \<open>The values the agent ships with, and hosts that answer the identity queries
  with fixed texts (each followed by a newline, as the commands print them): the uid,
  the gid, the group list, the record of the group \<open>ssm-user\<close> and one record
  for every other group.\<close>

definition cfg0 :: config where
  "cfg0 = \<lparr>DefaultRunAsUserName = ''ssm-user'', DefaultSessionLogger = ''ssm-session-logger'',
     ShellPluginCommandName = ''sh'', ShellPluginCommandArgs = [''-c''],
     ScreenBufferSize = 30000, Exit = ''exit''\<rparr>"

definition idAnswers ::
  "string \<Rightarrow> string \<Rightarrow> string \<Rightarrow> string \<Rightarrow> nat \<Rightarrow> string list \<Rightarrow> string + string"
where
  "idAnswers uid gid groups grouprec t argv =
     (if argv = uidQuery cfg0 then Inr (uid @ newLineCharacter)
      else if argv = gidQuery cfg0 then Inr (gid @ newLineCharacter)
      else if argv = groupsQuery cfg0 then Inr (groups @ newLineCharacter)
      else if argv = groupQuery cfg0 ''ssm-user'' then Inr (''ssm-user:x:1001:'' @ newLineCharacter)
      else Inr (grouprec @ newLineCharacter))"

definition noSuchUser :: "nat \<Rightarrow> string list \<Rightarrow> string + string" where
  "noSuchUser t argv = Inl ''exit status 1''"

definition hostWith :: "string list \<Rightarrow> (nat \<Rightarrow> string list \<Rightarrow> string + string) \<Rightarrow> host" where
  "hostWith env answers =
     \<lparr>environ = env, cmdOutput = answers, ptyStartError = (\<lambda>t cmd. None),
      setsizeError = (\<lambda>t. None), closeError = (\<lambda>t. None)\<rparr>"

definition healthyHost :: host where
  "healthyHost = hostWith [''PATH=/usr/bin'', ''LANG=en_US.UTF-8'']
     (idAnswers ''1001'' ''1001'' ''ssm-user : ssm-user test'' ''test:x:1004:ssm-user'')"

definition privilegedHost :: host where
  "privilegedHost = hostWith [''PATH=/usr/bin'']
     (idAnswers ''0'' ''1001'' ''ssm-user : ssm-user test'' ''test:x:1004:ssm-user'')"

definition brokenGroupHost :: host where
  "brokenGroupHost = hostWith [''PATH=/usr/bin'']
     (idAnswers ''1001'' ''1001'' ''ssm-user : ssm-user test'' ''test'')"

definition threeGroupHost :: host where
  "threeGroupHost = hostWith [''PATH=/usr/bin'']
     (idAnswers ''1001'' ''1001'' ''ssm-user : ssm-user test extra'' ''test:x:1004:ssm-user'')"

definition unparsableGroupHost :: host where
  "unparsableGroupHost = hostWith [''PATH=/usr/bin'']
     (idAnswers ''1001'' ''1001'' ''ssm-user : test ssm-user extra'' ''test:x:none:'')"

definition bareHost :: host where
  "bareHost = hostWith [''PATH=/usr/bin''] noSuchUser"

definition noPtyHost :: host where
  "noPtyHost = (hostWith [''PATH=/usr/bin''] noSuchUser)
     \<lparr>ptyStartError := (\<lambda>t cmd. Some ''no such file or directory'')\<rparr>"

definition plugin0 :: ShellPlugin where
  "plugin0 = \<lparr>logFilePath = ''/var/log/session.log'', ipcFilePath = ''/var/lib/session.ipc''\<rparr>"

section \<open>Properties\<close>

subsection \<open>Splitting, and the trace of the identity queries\<close>

lemma Split_nonempty: "Split s sep \<noteq> []"
  by (induction s) (auto split: list.splits)

lemma length_Split: "length (Split s sep) = Suc (count_list s sep)"
  by (induction s) (auto simp: Split_nonempty split: list.splits)

lemma queried_Nil: "queried s [] = s"
  by (simp add: queried_def)

lemma queried_queried: "queried (queried s qs) qs' = queried s (qs @ qs')"
  by (simp add: queried_def)

lemma record_event_EvOutput: "record_event (EvOutput q) s = queried s [q]"
  by (simp add: record_event_def queried_def)

lemma now_queried: "now (queried s qs) = now s + length qs"
  by (simp add: now_def queried_def)

lemma queried_frame:
  "ptyFile (queried s qs) = ptyFile s"
  "openFiles (queried s qs) = openFiles s"
  "winsizes (queried s qs) = winsizes s"
  "children (queried s qs) = children s"
  "nextHandle (queried s qs) = nextHandle s"
  "trace (queried s qs) = trace s @ map EvOutput qs"
  by (simp_all add: queried_def)

lemma Output_queried: "Output h argv s = (cmdOutput h (now s) argv, queried s [argv])"
  by (simp add: Output_def record_event_EvOutput)

lemma short_record: "(Suc (count_list out c) \<le> 2) = (count_list out c < 2)"
  by auto

text \<open>One turn of the loop, in terms of the number of separators of the record.\<close>

lemma groupIdLoop_step:
  "groupIdLoop cfg h (name # names) ids s =
     (case cmdOutput h (now s) (groupQuery cfg name) of
        Inl err \<Rightarrow> (Returns (Inl (ExecError err)), queried s [groupQuery cfg name])
      | Inr out \<Rightarrow>
          if count_list out CHR '':'' < 2
          then (Panics (IndexOutOfRange 2 (Suc (count_list out CHR '':''))),
                queried s [groupQuery cfg name])
          else (case Atoi (TrimSpace (Split out CHR '':'' ! 2)) of
                  Inl err \<Rightarrow> (Returns (Inl err), queried s [groupQuery cfg name])
                | Inr g \<Rightarrow>
                    groupIdLoop cfg h names (ids @ [word_of_int g])
                      (queried s [groupQuery cfg name])))"
  unfolding groupIdLoop.simps Output_queried groupQuery_def[symmetric] Let_def length_Split
    short_record
  by (simp split: sum.splits)

declare groupIdLoop.simps(2) [simp del]

lemma groupIdLoop_trace:
  "groupIdLoop cfg h names ids s = (r, s') \<Longrightarrow>
   \<exists>k\<le>length names.
     s' = queried s (map (groupQuery cfg) (take k names)) \<and>
     ((\<exists>ids'. r = Returns (Inr ids')) \<longrightarrow> k = length names)"
proof (induction names arbitrary: ids s)
  case Nil
  then show ?case by (simp add: queried_Nil)
next
  case (Cons name names)
  let ?s1 = "queried s [groupQuery cfg name]"
  have stop: ?case if "s' = ?s1" "\<forall>ids'. r \<noteq> Returns (Inr ids')"
    using that by (intro exI[of _ 1]) simp
  have go: ?case if "groupIdLoop cfg h names (ids @ [word_of_int g]) ?s1 = (r, s')" for g
  proof -
    from Cons.IH[OF that] obtain k where k: "k \<le> length names"
      "s' = queried ?s1 (map (groupQuery cfg) (take k names))"
      "(\<exists>ids'. r = Returns (Inr ids')) \<longrightarrow> k = length names"
      by blast
    then show ?thesis
      by (intro exI[of _ "Suc k"]) (simp add: queried_queried)
  qed
  show ?case
  proof (cases "cmdOutput h (now s) (groupQuery cfg name)")
    case (Inl err)
    with Cons.prems show ?thesis by (intro stop) (auto simp: groupIdLoop_step)
  next
    case out: (Inr out)
    show ?thesis
    proof (cases "count_list out CHR '':'' < 2")
      case True
      with out Cons.prems show ?thesis by (intro stop) (auto simp: groupIdLoop_step)
    next
      case False
      show ?thesis
      proof (cases "Atoi (TrimSpace (Split out CHR '':'' ! 2))")
        case (Inl err)
        with out False Cons.prems show ?thesis
          by (intro stop) (auto simp: groupIdLoop_step)
      next
        case (Inr g)
        with out False Cons.prems show ?thesis
          by (intro go[of g]) (simp add: groupIdLoop_step)
      qed
    qed
  qed
qed


lemma getUserCredentials_unfold:
  "getUserCredentials cfg h s =
     (case cmdOutput h (now s) (uidQuery cfg) of
        Inl err \<Rightarrow> (Returns (0, 0, [], Some (ExecError err)), queried s [uidQuery cfg])
      | Inr uo \<Rightarrow>
     (case Atoi (TrimSpace uo) of
        Inl err \<Rightarrow> (Returns (0, 0, [], Some err), queried s [uidQuery cfg])
      | Inr uid \<Rightarrow>
     (case cmdOutput h (Suc (now s)) (gidQuery cfg) of
        Inl err \<Rightarrow> (Returns (0, 0, [], Some (ExecError err)), queried s [uidQuery cfg, gidQuery cfg])
      | Inr go \<Rightarrow>
     (case Atoi (TrimSpace go) of
        Inl err \<Rightarrow> (Returns (0, 0, [], Some err), queried s [uidQuery cfg, gidQuery cfg])
      | Inr gid \<Rightarrow>
     (case cmdOutput h (Suc (Suc (now s))) (groupsQuery cfg) of
        Inl err \<Rightarrow> (Returns (0, 0, [], Some (ExecError err)),
                    queried s [uidQuery cfg, gidQuery cfg, groupsQuery cfg])
      | Inr out \<Rightarrow>
     (case groupIdLoop cfg h (drop 2 (Split out CHR '' '')) []
             (queried s [uidQuery cfg, gidQuery cfg, groupsQuery cfg]) of
        (Panics p, s4) \<Rightarrow> (Panics p, s4)
      | (Returns (Inl err), s4) \<Rightarrow> (Returns (0, 0, [], Some err), s4)
      | (Returns (Inr groupIds), s4) \<Rightarrow>
          if uid > 0 \<and> gid > 0 then
            (Returns (word_of_int uid, word_of_int gid, groupIds, None), s4)
          else (Returns (0, 0, [], Some (ErrorString ''invalid uid and gid'')), s4)))))))"
  unfolding getUserCredentials_def Output_queried uidQuery_def gidQuery_def groupsQuery_def
  by (simp add: now_queried queried_queried split: sum.splits)

lemma ParseInt_error: "ParseInt x = Inl e \<Longrightarrow> \<exists>k. e = NumError x k"
  by (auto simp: ParseInt_def Let_def split: if_splits sum.splits numerr.splits)

lemma Atoi_error: "Atoi x = Inl e \<Longrightarrow> \<exists>k. e = NumError x k"
  by (auto simp: Atoi_def Let_def split: if_splits option.splits dest: ParseInt_error)

lemma groupIdLoop_error:
  "groupIdLoop cfg h names ids s = (Returns (Inl e), s') \<Longrightarrow>
   (\<exists>m. e = ExecError m) \<or> (\<exists>x k. e = NumError x k)"
proof (induction names arbitrary: ids s)
  case Nil
  then show ?case by simp
next
  case (Cons name names)
  show ?case
  proof (cases "cmdOutput h (now s) (groupQuery cfg name)")
    case (Inl err)
    with Cons.prems show ?thesis by (auto simp: groupIdLoop_step)
  next
    case out: (Inr out)
    show ?thesis
    proof (cases "Atoi (TrimSpace (Split out CHR '':'' ! 2))")
      case (Inl err)
      with out Cons.prems Atoi_error[OF Inl] show ?thesis
        by (auto simp: groupIdLoop_step split: if_splits)
    next
      case (Inr g)
      with out Cons.prems show ?thesis
        by (auto simp: groupIdLoop_step split: if_splits dest: Cons.IH)
    qed
  qed
qed


subsection \<open>The concrete hosts\<close>

lemma cfg0_queries:
  "uidQuery cfg0 = [''sh'', ''-c'', ''id -u ssm-user'']"
  "gidQuery cfg0 = [''sh'', ''-c'', ''id -g ssm-user'']"
  "groupsQuery cfg0 = [''sh'', ''-c'', ''groups ssm-user'']"
  "groupQuery cfg0 name = [''sh'', ''-c'', ''getent group '' @ name]"
  by (simp_all add: uidQuery_def gidQuery_def groupsQuery_def groupQuery_def shellCommand_def cfg0_def)

lemma idAnswers_simps:
  "idAnswers u g gs rec t (uidQuery cfg0) = Inr (u @ newLineCharacter)"
  "idAnswers u g gs rec t (gidQuery cfg0) = Inr (g @ newLineCharacter)"
  "idAnswers u g gs rec t (groupsQuery cfg0) = Inr (gs @ newLineCharacter)"
  "idAnswers u g gs rec t (groupQuery cfg0 name) =
     Inr ((if name = ''ssm-user'' then ''ssm-user:x:1001:'' else rec) @ newLineCharacter)"
  by (simp_all add: idAnswers_def cfg0_queries)

lemma hostWith_simps:
  "environ (hostWith env a) = env"
  "cmdOutput (hostWith env a) = a"
  "ptyStartError (hostWith env a) t cmd = None"
  "setsizeError (hostWith env a) t = None"
  "closeError (hostWith env a) t = None"
  by (simp_all add: hostWith_def)


subsection \<open>Credential resolution\<close>

text \<open>
  Claim C1. In a run of credential resolution in which every external query succeeds
  (the uid, gid and group-list queries answer and parse, and the loop over the groups
  ends with the group ids), the credential is returned exactly when the resolved
  \<open>uid\<close> and \<open>gid\<close> are both positive; when either is zero or negative the result
  is the error \<open>invalid uid and gid\<close> with the zero credential \<open>(0, 0, nil)\<close>.
  The \<open>uid\<close> and \<open>gid\<close> tested are the integers \<open>Atoi\<close> parsed; what is returned
  is their conversion to \<open>uint32\<close>.
\<close>

theorem getUserCredentials_validation:
  assumes "cmdOutput h (now s) (uidQuery cfg) = Inr uo" and "Atoi (TrimSpace uo) = Inr uid"
    and "cmdOutput h (Suc (now s)) (gidQuery cfg) = Inr go" and "Atoi (TrimSpace go) = Inr gid"
    and "cmdOutput h (Suc (Suc (now s))) (groupsQuery cfg) = Inr out"
    and "groupIdLoop cfg h (drop 2 (Split out CHR '' '')) []
           (queried s [uidQuery cfg, gidQuery cfg, groupsQuery cfg]) = (Returns (Inr groupIds), s')"
  shows "getUserCredentials cfg h s =
           (if 0 < uid \<and> 0 < gid
            then (Returns (word_of_int uid, word_of_int gid, groupIds, None), s')
            else (Returns (0, 0, [], Some (ErrorString ''invalid uid and gid'')), s'))"
  using assms by (simp add: getUserCredentials_unfold)

theorem getUserCredentials_validation_witness:
  "fst (getUserCredentials cfg0 privilegedHost initial) =
     Returns (0, 0, [], Some (ErrorString ''invalid uid and gid'')) \<and>
   fst (getUserCredentials cfg0 healthyHost initial) = Returns (1001, 1001, [1001, 1004], None)"
proof -
  let ?qs = "[uidQuery cfg0, gidQuery cfg0, groupsQuery cfg0]"
  let ?out = "''ssm-user : ssm-user test'' @ newLineCharacter"
  let ?s' = "queried initial
    (?qs @ [groupQuery cfg0 ''ssm-user'', groupQuery cfg0 (''test'' @ newLineCharacter)])"
  have p1: "cmdOutput privilegedHost (now initial) (uidQuery cfg0) = Inr (''0'' @ newLineCharacter)"
    by code_simp
  have p2: "Atoi (TrimSpace (''0'' @ newLineCharacter)) = Inr 0"
    by code_simp
  have p3: "cmdOutput privilegedHost (Suc (now initial)) (gidQuery cfg0) = Inr (''1001'' @ newLineCharacter)"
    by code_simp
  have p4: "Atoi (TrimSpace (''1001'' @ newLineCharacter)) = Inr 1001"
    by code_simp
  have p5: "cmdOutput privilegedHost (Suc (Suc (now initial))) (groupsQuery cfg0) = Inr ?out"
    by code_simp
  have p6: "groupIdLoop cfg0 privilegedHost (drop 2 (Split ?out CHR '' '')) [] (queried initial ?qs)
              = (Returns (Inr [1001, 1004]), ?s')"
    by code_simp
  have h1: "cmdOutput healthyHost (now initial) (uidQuery cfg0) = Inr (''1001'' @ newLineCharacter)"
    by code_simp
  have h3: "cmdOutput healthyHost (Suc (now initial)) (gidQuery cfg0) = Inr (''1001'' @ newLineCharacter)"
    by code_simp
  have h5: "cmdOutput healthyHost (Suc (Suc (now initial))) (groupsQuery cfg0) = Inr ?out"
    by code_simp
  have h6: "groupIdLoop cfg0 healthyHost (drop 2 (Split ?out CHR '' '')) [] (queried initial ?qs)
              = (Returns (Inr [1001, 1004]), ?s')"
    by code_simp
  show ?thesis
    using getUserCredentials_validation[OF p1 p2 p3 p4 p5 p6]
      getUserCredentials_validation[OF h1 p4 h3 p4 h5 h6]
    by simp
qed

text \<open>The conversion to \<open>uint32\<close> happens after the test: where \<open>int\<close> has 64 bits,
  an answer of \<open>4294967296\<close> passes the test as a positive number and is returned as
  the uid 0.\<close>

lemma getUserCredentials_uid_conversion:
  "fst (getUserCredentials cfg0
     (hostWith [] (idAnswers ''4294967296'' ''1001'' ''ssm-user : ssm-user'' ''ssm-user:x:1001:''))
     initial) = Returns (0, 1001, [1001], None)"
  by code_simp

text \<open>Whatever the queries answer: a credential comes back only from answers that
  parse to a positive uid and gid, and an error comes back with the zero credential.\<close>

lemma getUserCredentials_error_zero:
  "fst (getUserCredentials cfg h s) = Returns (u, g, gs, Some e) \<Longrightarrow> u = 0 \<and> g = 0 \<and> gs = []"
  unfolding getUserCredentials_unfold
  by (simp split: sum.splits prod.splits outcome.splits if_splits)

lemma getUserCredentials_credential_positive:
  assumes "fst (getUserCredentials cfg h s) = Returns (u, g, gs, None)"
  shows "\<exists>uo uid go gid.
           cmdOutput h (now s) (uidQuery cfg) = Inr uo \<and> Atoi (TrimSpace uo) = Inr uid \<and>
           cmdOutput h (Suc (now s)) (gidQuery cfg) = Inr go \<and> Atoi (TrimSpace go) = Inr gid \<and>
           0 < uid \<and> 0 < gid \<and> u = word_of_int uid \<and> g = word_of_int gid"
  using assms unfolding getUserCredentials_unfold
  by (simp split: sum.splits prod.splits outcome.splits if_splits)

text \<open>The group queries of one run of the loop: the queries for the first \<open>k\<close>
  names, each answered well but possibly the last, and short of all the names only
  when the last answer was not.\<close>

lemma groupIdLoop_step_ok:
  assumes "groupAnswerOk (cmdOutput h (now s) (groupQuery cfg name))"
  shows "\<exists>g. groupIdLoop cfg h (name # names) ids s =
              groupIdLoop cfg h names (ids @ [g]) (queried s [groupQuery cfg name])"
  using assms
  by (auto simp: groupAnswerOk_def groupIdLoop_step split: sum.splits)

lemma groupIdLoop_step_fail:
  assumes "\<not> groupAnswerOk (cmdOutput h (now s) (groupQuery cfg name))"
  shows "snd (groupIdLoop cfg h (name # names) ids s) = queried s [groupQuery cfg name] \<and>
         (\<forall>ids'. fst (groupIdLoop cfg h (name # names) ids s) \<noteq> Returns (Inr ids'))"
  using assms
  by (auto simp: groupAnswerOk_def groupIdLoop_step not_le split: sum.splits)

lemma groupIdLoop_queries:
  "groupIdLoop cfg h names ids s = (r, s') \<Longrightarrow>
   \<exists>k\<le>length names.
     s' = queried s (map (groupQuery cfg) (take k names)) \<and>
     (\<forall>i. Suc i < k \<longrightarrow>
        groupAnswerOk (cmdOutput h (now s + i) (groupQuery cfg (names ! i)))) \<and>
     (k < length names \<longrightarrow>
        0 < k \<and> \<not> groupAnswerOk (cmdOutput h (now s + (k - 1)) (groupQuery cfg (names ! (k - 1))))) \<and>
     ((\<exists>ids'. r = Returns (Inr ids')) \<longleftrightarrow>
        k = length names \<and>
        (\<forall>i<k. groupAnswerOk (cmdOutput h (now s + i) (groupQuery cfg (names ! i)))))"
proof (induction names arbitrary: ids s)
  case Nil
  then show ?case by (auto simp: queried_Nil)
next
  case (Cons name names)
  let ?s1 = "queried s [groupQuery cfg name]"
  let ?a0 = "cmdOutput h (now s) (groupQuery cfg name)"
  show ?case
  proof (cases "groupAnswerOk ?a0")
    case False
    from groupIdLoop_step_fail[OF False, of names ids] Cons.prems
    have s': "s' = ?s1" and r: "\<forall>ids'. r \<noteq> Returns (Inr ids')"
      by auto
    show ?thesis
    proof (intro exI[of _ 1] conjI impI allI)
      show "1 \<le> length (name # names)" by simp
      show "s' = queried s (map (groupQuery cfg) (take 1 (name # names)))"
        using s' by simp
      show "(\<exists>ids'. r = Returns (Inr ids')) \<longleftrightarrow>
        1 = length (name # names) \<and>
        (\<forall>i<1. groupAnswerOk (cmdOutput h (now s + i) (groupQuery cfg ((name # names) ! i))))"
        using r False by auto
    qed (use False in simp_all)
  next
    case True
    from groupIdLoop_step_ok[OF True, of names ids] Cons.prems obtain g where
      "groupIdLoop cfg h names (ids @ [g]) ?s1 = (r, s')"
      by auto
    from Cons.IH[OF this] obtain k where k: "k \<le> length names"
      "s' = queried ?s1 (map (groupQuery cfg) (take k names))"
      "\<forall>i. Suc i < k \<longrightarrow> groupAnswerOk (cmdOutput h (now ?s1 + i) (groupQuery cfg (names ! i)))"
      "k < length names \<longrightarrow>
        0 < k \<and> \<not> groupAnswerOk (cmdOutput h (now ?s1 + (k - 1)) (groupQuery cfg (names ! (k - 1))))"
      "(\<exists>ids'. r = Returns (Inr ids')) \<longleftrightarrow>
        k = length names \<and>
        (\<forall>i<k. groupAnswerOk (cmdOutput h (now ?s1 + i) (groupQuery cfg (names ! i))))"
      by blast
    have now1: "now ?s1 + i = now s + Suc i" for i
      by (simp add: now_queried)
    have shift: "groupAnswerOk (cmdOutput h (now s + i) (groupQuery cfg ((name # names) ! i))) \<longleftrightarrow>
        (case i of 0 \<Rightarrow> True
         | Suc j \<Rightarrow> groupAnswerOk (cmdOutput h (now ?s1 + j) (groupQuery cfg (names ! j))))" for i
      using True by (cases i) (simp_all add: now1)
    show ?thesis
    proof (intro exI[of _ "Suc k"] conjI impI allI)
      show "Suc k \<le> length (name # names)" using k(1) by simp
      show "s' = queried s (map (groupQuery cfg) (take (Suc k) (name # names)))"
        using k(2) by (simp add: queried_queried)
      show "groupAnswerOk (cmdOutput h (now s + i) (groupQuery cfg ((name # names) ! i)))"
        if "Suc i < Suc k" for i
        using that k(3) unfolding shift by (cases i) simp_all
      show "0 < Suc k" by simp
      show "\<not> groupAnswerOk (cmdOutput h (now s + (Suc k - 1))
                (groupQuery cfg ((name # names) ! (Suc k - 1))))"
        if "Suc k < length (name # names)"
        using that k(4) unfolding shift by (cases k) simp_all
      show "(\<exists>ids'. r = Returns (Inr ids')) \<longleftrightarrow>
        Suc k = length (name # names) \<and>
        (\<forall>i<Suc k. groupAnswerOk (cmdOutput h (now s + i) (groupQuery cfg ((name # names) ! i))))"
      proof -
        have "(\<forall>i<Suc k. groupAnswerOk (cmdOutput h (now s + i) (groupQuery cfg ((name # names) ! i))))
            \<longleftrightarrow> (\<forall>j<k. groupAnswerOk (cmdOutput h (now ?s1 + j) (groupQuery cfg (names ! j))))"
          unfolding shift by (auto simp: less_Suc_eq_0_disj)
        with k(5) show ?thesis by simp
      qed
    qed
  qed
qed

text \<open>
  Claim C4. The output of the group-membership query is split at every space; the first
  two pieces are skipped and neither is queried. The group-database queries made are
  those for the pieces from the third onward, one query for each, in order and without
  a gap. None is left out: the queries stop before the last piece only when the answer
  to the last query made was an error, a record without a third field or a third field
  that is no number, which ends the resolution; and resolution gets past the loop (it
  returns a credential or the validation error) exactly when every piece from the
  third onward was queried and answered well.
\<close>

theorem getUserCredentials_group_queries:
  assumes "cmdOutput h (now s) (uidQuery cfg) = Inr uo" and "Atoi (TrimSpace uo) = Inr uid"
    and "cmdOutput h (Suc (now s)) (gidQuery cfg) = Inr go" and "Atoi (TrimSpace go) = Inr gid"
    and "cmdOutput h (Suc (Suc (now s))) (groupsQuery cfg) = Inr out"
    and "getUserCredentials cfg h s = (r, s')"
  shows "\<exists>k\<le>length (drop 2 (Split out CHR '' '')).
           newEvents s s' =
             map EvOutput ([uidQuery cfg, gidQuery cfg, groupsQuery cfg] @
               map (groupQuery cfg) (take k (drop 2 (Split out CHR '' '')))) \<and>
           (\<forall>i. Suc i < k \<longrightarrow>
              groupAnswerOk (cmdOutput h (now s + 3 + i)
                (groupQuery cfg (drop 2 (Split out CHR '' '') ! i)))) \<and>
           (k < length (drop 2 (Split out CHR '' '')) \<longrightarrow>
              0 < k \<and>
              \<not> groupAnswerOk (cmdOutput h (now s + 3 + (k - 1))
                  (groupQuery cfg (drop 2 (Split out CHR '' '') ! (k - 1))))) \<and>
           ((\<exists>u g gs. r = Returns (u, g, gs, None)) \<or>
            r = Returns (0, 0, [], Some (ErrorString ''invalid uid and gid''))
            \<longleftrightarrow>
            k = length (drop 2 (Split out CHR '' '')) \<and>
            (\<forall>i<k. groupAnswerOk (cmdOutput h (now s + 3 + i)
                      (groupQuery cfg (drop 2 (Split out CHR '' '') ! i)))))"
proof -
  let ?names = "drop 2 (Split out CHR '' '')"
  let ?s3 = "queried s [uidQuery cfg, gidQuery cfg, groupsQuery cfg]"
  let ?ok = "\<lambda>i. groupAnswerOk (cmdOutput h (now s + 3 + i) (groupQuery cfg (?names ! i)))"
  have now3: "now ?s3 + i = now s + 3 + i" for i
    by (simp add: now_queried)
  obtain lr s4 where loop: "groupIdLoop cfg h ?names [] ?s3 = (lr, s4)"
    by (cases "groupIdLoop cfg h ?names [] ?s3")
  from groupIdLoop_queries[OF loop] obtain k where k: "k \<le> length ?names"
    "s4 = queried ?s3 (map (groupQuery cfg) (take k ?names))"
    "\<forall>i. Suc i < k \<longrightarrow> ?ok i"
    "k < length ?names \<longrightarrow> 0 < k \<and> \<not> ?ok (k - 1)"
    "(\<exists>ids'. lr = Returns (Inr ids')) \<longleftrightarrow> k = length ?names \<and> (\<forall>i<k. ?ok i)"
    unfolding now3 by blast
  have res: "(r, s') = (case lr of
        Panics p \<Rightarrow> (Panics p, s4)
      | Returns (Inl err) \<Rightarrow> (Returns (0, 0, [], Some err), s4)
      | Returns (Inr groupIds) \<Rightarrow>
          if uid > 0 \<and> gid > 0 then
            (Returns (word_of_int uid, word_of_int gid, groupIds, None), s4)
          else (Returns (0, 0, [], Some (ErrorString ''invalid uid and gid'')), s4))"
    using assms loop by (simp add: getUserCredentials_unfold)
  then have s': "s' = s4"
    by (auto split: outcome.splits sum.splits if_splits)
  have ev: "newEvents s s' =
      map EvOutput ([uidQuery cfg, gidQuery cfg, groupsQuery cfg] @ map (groupQuery cfg) (take k ?names))"
    by (simp add: s' k(2) newEvents_def queried_def)
  have err: "e \<noteq> ErrorString ''invalid uid and gid''" if "lr = Returns (Inl e)" for e
    using groupIdLoop_error[OF loop[unfolded that]] by auto
  have past: "((\<exists>u g gs. r = Returns (u, g, gs, None)) \<or>
        r = Returns (0, 0, [], Some (ErrorString ''invalid uid and gid'')))
        \<longleftrightarrow> (\<exists>ids'. lr = Returns (Inr ids'))"
    using res err by (auto split: outcome.splits sum.splits if_splits)
  show ?thesis
    using k(1) ev k(3) k(4) k(5) unfolding past by blast
qed

theorem getUserCredentials_group_queries_witness:
  "newEvents initial (snd (getUserCredentials cfg0 threeGroupHost initial)) =
     map EvOutput [uidQuery cfg0, gidQuery cfg0, groupsQuery cfg0,
       groupQuery cfg0 ''ssm-user'', groupQuery cfg0 ''test'',
       groupQuery cfg0 (''extra'' @ newLineCharacter)] \<and>
   newEvents initial (snd (getUserCredentials cfg0 unparsableGroupHost initial)) =
     map EvOutput [uidQuery cfg0, gidQuery cfg0, groupsQuery cfg0, groupQuery cfg0 ''test'']"
proof -
  let ?out = "''ssm-user : ssm-user test extra'' @ newLineCharacter"
  let ?out' = "''ssm-user : test ssm-user extra'' @ newLineCharacter"
  have p: "Atoi (TrimSpace (''1001'' @ newLineCharacter)) = Inr 1001"
    by code_simp
  have h1: "cmdOutput threeGroupHost (now initial) (uidQuery cfg0) = Inr (''1001'' @ newLineCharacter)"
    and h3: "cmdOutput threeGroupHost (Suc (now initial)) (gidQuery cfg0) = Inr (''1001'' @ newLineCharacter)"
    and h5: "cmdOutput threeGroupHost (Suc (Suc (now initial))) (groupsQuery cfg0) = Inr ?out"
    by code_simp+
  have names: "drop 2 (Split ?out CHR '' '') = [''ssm-user'', ''test'', ''extra'' @ newLineCharacter]"
    by code_simp
  have ok: "groupAnswerOk (cmdOutput threeGroupHost (now initial + 3 + 0) (groupQuery cfg0 ''ssm-user''))"
    "groupAnswerOk (cmdOutput threeGroupHost (now initial + 3 + 1) (groupQuery cfg0 ''test''))"
    by code_simp+
  have u1: "cmdOutput unparsableGroupHost (now initial) (uidQuery cfg0) = Inr (''1001'' @ newLineCharacter)"
    and u3: "cmdOutput unparsableGroupHost (Suc (now initial)) (gidQuery cfg0) = Inr (''1001'' @ newLineCharacter)"
    and u5: "cmdOutput unparsableGroupHost (Suc (Suc (now initial))) (groupsQuery cfg0) = Inr ?out'"
    by code_simp+
  have names': "drop 2 (Split ?out' CHR '' '') = [''test'', ''ssm-user'', ''extra'' @ newLineCharacter]"
    by code_simp
  have bad: "\<not> groupAnswerOk (cmdOutput unparsableGroupHost (now initial + 3 + 0) (groupQuery cfg0 ''test''))"
    by code_simp
  let ?ns = "[''ssm-user'', ''test'', ''extra'' @ newLineCharacter]"
  let ?ns' = "[''test'', ''ssm-user'', ''extra'' @ newLineCharacter]"
  note three = getUserCredentials_group_queries[OF h1 p h3 p h5 surjective_pairing, unfolded names]
  then obtain k where
    k: "k \<le> length ?ns"
       "newEvents initial (snd (getUserCredentials cfg0 threeGroupHost initial)) =
          map EvOutput ([uidQuery cfg0, gidQuery cfg0, groupsQuery cfg0] @
            map (groupQuery cfg0) (take k ?ns))"
       "k < length ?ns \<longrightarrow> 0 < k \<and>
          \<not> groupAnswerOk (cmdOutput threeGroupHost (now initial + 3 + (k - 1))
              (groupQuery cfg0 (?ns ! (k - 1))))"
    by blast
  have "k = 3"
  proof (rule ccontr)
    assume "k \<noteq> 3"
    with k(1) have lt: "k < length ?ns" by simp
    with k(3) have "k = 1 \<or> k = 2" by auto
    with k(3) lt ok show False by auto
  qed
  with k(2) have a: "newEvents initial (snd (getUserCredentials cfg0 threeGroupHost initial)) =
     map EvOutput [uidQuery cfg0, gidQuery cfg0, groupsQuery cfg0,
       groupQuery cfg0 ''ssm-user'', groupQuery cfg0 ''test'',
       groupQuery cfg0 (''extra'' @ newLineCharacter)]"
    by simp
  note unp = getUserCredentials_group_queries[OF u1 p u3 p u5 surjective_pairing, unfolded names']
  then obtain j where
    j: "j \<le> length ?ns'"
       "newEvents initial (snd (getUserCredentials cfg0 unparsableGroupHost initial)) =
          map EvOutput ([uidQuery cfg0, gidQuery cfg0, groupsQuery cfg0] @
            map (groupQuery cfg0) (take j ?ns'))"
       "\<forall>i. Suc i < j \<longrightarrow>
          groupAnswerOk (cmdOutput unparsableGroupHost (now initial + 3 + i)
              (groupQuery cfg0 (?ns' ! i)))"
       "j < length ?ns' \<longrightarrow> 0 < j \<and>
          \<not> groupAnswerOk (cmdOutput unparsableGroupHost (now initial + 3 + (j - 1))
              (groupQuery cfg0 (?ns' ! (j - 1))))"
    by blast
  have "j = 1"
  proof (rule ccontr)
    assume "j \<noteq> 1"
    with j(1) j(4) have "Suc 0 < j" by auto
    with j(3) have "groupAnswerOk (cmdOutput unparsableGroupHost (now initial + 3 + 0)
              (groupQuery cfg0 (?ns' ! 0)))"
      by blast
    with bad show False by simp
  qed
  with j(2) have b: "newEvents initial (snd (getUserCredentials cfg0 unparsableGroupHost initial)) =
     map EvOutput [uidQuery cfg0, gidQuery cfg0, groupsQuery cfg0, groupQuery cfg0 ''test'']"
    by simp
  from a b show ?thesis by blast
qed



text \<open>The host whose record of the group \<open>test\<close> is the bare name makes the whole
  resolution panic.\<close>

lemma brokenGroupHost_panics:
  "fst (getUserCredentials cfg0 brokenGroupHost initial) = Panics (IndexOutOfRange 2 1)"
  by code_simp

subsection \<open>Starting a session\<close>

lemma newEvents_self: "newEvents s s = []"
  by (simp add: newEvents_def)

lemma newEvents_record_event: "newEvents s (record_event e s) = [e]"
  by (simp add: newEvents_def record_event_def)

lemma newEvents_append: "trace s' = trace s @ es \<Longrightarrow> newEvents s s' = es"
  by (simp add: newEvents_def)

lemma ptyStarts_append: "ptyStarts (es @ es') = ptyStarts es @ ptyStarts es'"
  by (induction es rule: ptyStarts.induct) simp_all

lemma ptyStarts_EvOutput: "ptyStarts (map EvOutput qs) = []"
  by (induction qs) simp_all

lemma startedFiles_append: "startedFiles (es @ es') = startedFiles es @ startedFiles es'"
  by (induction es rule: startedFiles.induct) simp_all

lemma startedFiles_EvOutput: "startedFiles (map EvOutput qs) = []"
  by (induction qs) simp_all

lemma getUserCredentials_state:
  "getUserCredentials cfg h s = (r, s') \<Longrightarrow> \<exists>qs. s' = queried s qs"
proof -
  assume run: "getUserCredentials cfg h s = (r, s')"
  have loop: "\<exists>qs. snd (groupIdLoop cfg h names [] (queried s qs0)) = queried s qs" for names qs0
  proof -
    obtain lr s4 where l: "groupIdLoop cfg h names [] (queried s qs0) = (lr, s4)"
      by (cases "groupIdLoop cfg h names [] (queried s qs0)")
    from groupIdLoop_trace[OF l] show ?thesis
      by (auto simp: l queried_queried)
  qed
  have "\<exists>qs. snd (getUserCredentials cfg h s) = queried s qs"
    unfolding getUserCredentials_unfold
    apply (simp split: sum.splits prod.splits outcome.splits)
    apply (intro conjI allI impI)
    apply (blast | metis loop snd_conv)+
    done
  with run show ?thesis by simp
qed

lemma startCmd_unfold:
  "startCmd h cmd s =
     (case ptyStartError h (now s) cmd of
        Some msg \<Rightarrow>
          (Returns (None, None, Some (ErrorString (''Failed to start pty: '' @ msg @ [CHR 0x0A]))),
           (record_event (EvPtyStart cmd None) s)\<lparr>ptyFile := None\<rparr>)
      | None \<Rightarrow>
          (Returns (Some (nextHandle s), Some (nextHandle s), None),
           (record_event (EvPtyStart cmd (Some (nextHandle s))) s)
             \<lparr>ptyFile := Some (nextHandle s), openFiles := nextHandle s # openFiles s,
              children := children s @ [(nextHandle s, cmd)], nextHandle := Suc (nextHandle s)\<rparr>))"
  by (simp add: startCmd_def pty_Start_def record_event_def Let_def split: option.splits)

lemma startCmd_events:
  "\<exists>fo. trace (snd (startCmd h cmd s)) = trace s @ [EvPtyStart cmd fo]"
  by (simp add: startCmd_unfold record_event_def split: option.splits)

lemma Args_buildCmd:
  "Args (buildCmd cfg h shellCmd) =
     (if TrimSpace shellCmd = [] then [''sh''] else ''sh'' # ShellPluginCommandArgs cfg @ [shellCmd])"
  by (simp add: buildCmd_def Command_def Let_def)

lemma Env_buildCmd:
  "Env (buildCmd cfg h shellCmd) =
     environ h @ [termEnvVariable, homeEnvVariable cfg] @
       (if Getenv h langEnvVariableKey = [] then [langEnvVariable] else [])"
  by (simp add: buildCmd_def Command_def Let_def)

lemma Credential_buildCmd: "SysProcAttrCredential (buildCmd cfg h shellCmd) = None"
  by (simp add: buildCmd_def Command_def Let_def)

lemma StartPty_False: "StartPty cfg h False shellCmd s = startCmd h (buildCmd cfg h shellCmd) s"
  by (simp add: StartPty_def Let_def)

lemma StartPty_True_error:
  "getUserCredentials cfg h (CreateLocalAdminUser s) = (Returns (uid, gid, groups, Some err), s1) \<Longrightarrow>
   StartPty cfg h True shellCmd s = (Returns (None, None, Some err), s1)"
  by (simp add: StartPty_def Let_def)

lemma StartPty_True_panic:
  "getUserCredentials cfg h (CreateLocalAdminUser s) = (Panics p, s1) \<Longrightarrow>
   StartPty cfg h True shellCmd s = (Panics p, s1)"
  by (simp add: StartPty_def Let_def)

lemma StartPty_True_resolved:
  "getUserCredentials cfg h (CreateLocalAdminUser s) = (Returns (uid, gid, groups, None), s1) \<Longrightarrow>
   StartPty cfg h True shellCmd s =
     startCmd h ((buildCmd cfg h shellCmd)\<lparr>SysProcAttrCredential :=
        Some \<lparr>Uid = uid, Gid = gid, Groups = groups, NoSetGroups = False\<rparr>\<rparr>) s1"
  by (simp add: StartPty_def Let_def)

lemma resolution_events:
  assumes "getUserCredentials cfg h (CreateLocalAdminUser s) = (r, s1)"
  shows "\<exists>qs. s1 = queried (CreateLocalAdminUser s) qs \<and>
              newEvents s s1 = EvCreateLocalAdminUser # map EvOutput qs"
proof -
  from getUserCredentials_state[OF assms] obtain qs
    where qs: "s1 = queried (CreateLocalAdminUser s) qs" by blast
  then have "newEvents s s1 = EvCreateLocalAdminUser # map EvOutput qs"
    by (simp add: newEvents_def queried_def CreateLocalAdminUser_def record_event_def)
  with qs show ?thesis by blast
qed

lemma ptyStarts_startCmd:
  "newEvents s s1 = es \<Longrightarrow> length (trace s) \<le> length (trace s1) \<Longrightarrow>
   ptyStarts (newEvents s (snd (startCmd h cmd s1))) = ptyStarts es @ [cmd]"
proof -
  assume es: "newEvents s s1 = es" and le: "length (trace s) \<le> length (trace s1)"
  obtain fo where "trace (snd (startCmd h cmd s1)) = trace s1 @ [EvPtyStart cmd fo]"
    using startCmd_events by blast
  then have "newEvents s (snd (startCmd h cmd s1)) = es @ [EvPtyStart cmd fo]"
    using es le by (simp add: newEvents_def)
  then show ?thesis by (simp add: ptyStarts_append)
qed

text \<open>The commands handed to \<open>pty.Start\<close> by one call of \<open>StartPty\<close>.\<close>

lemma StartPty_ptyStarts:
  "ptyStarts (newEvents s (snd (StartPty cfg h runAsSsmUser shellCmd s))) =
     (if runAsSsmUser then
        (case fst (getUserCredentials cfg h (CreateLocalAdminUser s)) of
           Returns (uid, gid, groups, None) \<Rightarrow>
             [(buildCmd cfg h shellCmd)\<lparr>SysProcAttrCredential :=
                 Some \<lparr>Uid = uid, Gid = gid, Groups = groups, NoSetGroups = False\<rparr>\<rparr>]
         | Returns (uid, gid, groups, Some err) \<Rightarrow> []
         | Panics p \<Rightarrow> [])
      else [buildCmd cfg h shellCmd])"
proof (cases runAsSsmUser)
  case False
  then show ?thesis
    using ptyStarts_startCmd[of s s "[]" h "buildCmd cfg h shellCmd"]
    by (simp add: StartPty_False newEvents_self)
next
  case True
  obtain r s1 where run: "getUserCredentials cfg h (CreateLocalAdminUser s) = (r, s1)"
    by (cases "getUserCredentials cfg h (CreateLocalAdminUser s)")
  from resolution_events[OF run] obtain qs where
    qs: "s1 = queried (CreateLocalAdminUser s) qs"
        "newEvents s s1 = EvCreateLocalAdminUser # map EvOutput qs"
    by blast
  have none: "ptyStarts (newEvents s s1) = []"
    by (simp add: qs(2) ptyStarts_EvOutput)
  have le: "length (trace s) \<le> length (trace s1)"
    by (simp add: qs(1) queried_def CreateLocalAdminUser_def record_event_def)
  show ?thesis
  proof (cases r)
    case (Panics p)
    with True run none show ?thesis by (simp add: StartPty_True_panic)
  next
    case (Returns c)
    obtain uid gid groups e where c: "c = (uid, gid, groups, e)" by (cases c) auto
    show ?thesis
    proof (cases e)
      case None
      with True run Returns c show ?thesis
        using ptyStarts_startCmd[OF refl le, of h _ ] none
        by (simp add: StartPty_True_resolved)
    next
      case (Some err)
      with True run Returns c none show ?thesis by (simp add: StartPty_True_error)
    qed
  qed
qed

lemma definesKey_overrides:
  "\<not> definesKey langEnvVariableKey termEnvVariable"
  "\<not> definesKey langEnvVariableKey (homeEnvVariable cfg)"
  "definesKey langEnvVariableKey langEnvVariable"
  by (simp_all add: definesKey_def langEnvVariableKey_def termEnvVariable_def
      homeEnvVariable_def langEnvVariable_def)

text \<open>
  Claim C2. When \<open>shellCmd\<close> is empty or consists of white space only, \<open>StartPty\<close>
  starts \<open>sh\<close> with no argument; otherwise it starts \<open>sh\<close> with the configured
  run-a-command arguments followed by the whole, untrimmed \<open>shellCmd\<close> as one single
  argument. Without \<open>runAsSsmUser\<close> every call hands exactly one command to
  \<open>pty.Start\<close>; with it, at most one.
\<close>

theorem StartPty_command_line:
  "(\<not> runAsSsmUser \<longrightarrow>
      length (ptyStarts (newEvents s (snd (StartPty cfg h runAsSsmUser shellCmd s)))) = 1) \<and>
   (\<forall>cmd \<in> set (ptyStarts (newEvents s (snd (StartPty cfg h runAsSsmUser shellCmd s)))).
      Args cmd = (if TrimSpace shellCmd = [] then [''sh'']
                  else ''sh'' # ShellPluginCommandArgs cfg @ [shellCmd]))"
  unfolding StartPty_ptyStarts
  by (auto simp: Args_buildCmd split: outcome.splits option.splits)

theorem StartPty_command_line_witness:
  "map Args (ptyStarts (newEvents initial (snd (StartPty cfg0 healthyHost False ''ls -l /tmp'' initial))))
     = [[''sh'', ''-c'', ''ls -l /tmp'']] \<and>
   map Args (ptyStarts (newEvents initial (snd (StartPty cfg0 healthyHost False [CHR '' '', CHR 0x09] initial))))
     = [[''sh'']]"
proof -
  let ?a = "ptyStarts (newEvents initial (snd (StartPty cfg0 healthyHost False ''ls -l /tmp'' initial)))"
  let ?b = "ptyStarts (newEvents initial (snd (StartPty cfg0 healthyHost False [CHR '' '', CHR 0x09] initial)))"
  have t1: "TrimSpace ''ls -l /tmp'' \<noteq> []" by code_simp
  have t2: "TrimSpace [CHR '' '', CHR 0x09] = []" by code_simp
  have args: "ShellPluginCommandArgs cfg0 = [''-c'']" by (simp add: cfg0_def)
  from StartPty_command_line[of False initial cfg0 healthyHost "''ls -l /tmp''"]
  have a: "length ?a = 1" "\<forall>cmd\<in>set ?a. Args cmd = [''sh'', ''-c'', ''ls -l /tmp'']"
    using t1 args by simp_all
  from StartPty_command_line[of False initial cfg0 healthyHost "[CHR '' '', CHR 0x09]"]
  have b: "length ?b = 1" "\<forall>cmd\<in>set ?b. Args cmd = [''sh'']"
    using t2 by simp_all
  from a have "map Args ?a = [[''sh'', ''-c'', ''ls -l /tmp'']]"
    by (cases ?a) auto
  moreover from b have "map Args ?b = [[''sh'']]"
    by (cases ?b) auto
  ultimately show ?thesis by blast
qed

text \<open>
  Claim C5. The environment of the command \<open>StartPty\<close> starts is the caller's
  environment followed by the terminal-type and home-directory overrides, and by the
  UTF-8 locale default exactly when \<open>LANG\<close> is unset or empty in the caller's
  environment; the definitions of \<open>LANG\<close> in the child's environment are then those
  of the caller, with the default after them only in that case.
\<close>

theorem StartPty_environment:
  "(\<not> runAsSsmUser \<longrightarrow>
      length (ptyStarts (newEvents s (snd (StartPty cfg h runAsSsmUser shellCmd s)))) = 1) \<and>
   (\<forall>cmd \<in> set (ptyStarts (newEvents s (snd (StartPty cfg h runAsSsmUser shellCmd s)))).
      Env cmd = environ h @ [termEnvVariable, homeEnvVariable cfg] @
                  (if Getenv h langEnvVariableKey = [] then [langEnvVariable] else []) \<and>
      filter (definesKey langEnvVariableKey) (Env cmd) =
        filter (definesKey langEnvVariableKey) (environ h) @
          (if Getenv h langEnvVariableKey = [] then [langEnvVariable] else []))"
  unfolding StartPty_ptyStarts
  by (auto simp: Env_buildCmd definesKey_overrides split: outcome.splits option.splits)

theorem StartPty_environment_witness:
  "map Env (ptyStarts (newEvents initial (snd (StartPty cfg0 healthyHost False [] initial))))
     = [[''PATH=/usr/bin'', ''LANG=en_US.UTF-8'', ''TERM=xterm-256color'', ''HOME=/home/ssm-user'']] \<and>
   map Env (ptyStarts (newEvents initial (snd (StartPty cfg0 bareHost False [] initial))))
     = [[''PATH=/usr/bin'', ''TERM=xterm-256color'', ''HOME=/home/ssm-user'', ''LANG=C.UTF-8'']]"
proof -
  let ?a = "ptyStarts (newEvents initial (snd (StartPty cfg0 healthyHost False [] initial)))"
  let ?b = "ptyStarts (newEvents initial (snd (StartPty cfg0 bareHost False [] initial)))"
  have la: "Getenv healthyHost langEnvVariableKey = ''en_US.UTF-8''" by code_simp
  have lb: "Getenv bareHost langEnvVariableKey = []" by code_simp
  have ea: "environ healthyHost = [''PATH=/usr/bin'', ''LANG=en_US.UTF-8'']"
    by (simp add: healthyHost_def hostWith_def)
  have eb: "environ bareHost = [''PATH=/usr/bin'']"
    by (simp add: bareHost_def hostWith_def)
  have c: "termEnvVariable = ''TERM=xterm-256color''" "homeEnvVariable cfg0 = ''HOME=/home/ssm-user''"
    "langEnvVariable = ''LANG=C.UTF-8''"
    by (simp_all add: termEnvVariable_def homeEnvVariable_def langEnvVariable_def cfg0_def)
  from StartPty_environment[of False initial cfg0 healthyHost "[]"]
  have a: "length ?a = 1"
    "\<forall>cmd\<in>set ?a. Env cmd = [''PATH=/usr/bin'', ''LANG=en_US.UTF-8'', ''TERM=xterm-256color'', ''HOME=/home/ssm-user'']"
    by (simp_all add: la ea c)
  from StartPty_environment[of False initial cfg0 bareHost "[]"]
  have b: "length ?b = 1"
    "\<forall>cmd\<in>set ?b. Env cmd = [''PATH=/usr/bin'', ''TERM=xterm-256color'', ''HOME=/home/ssm-user'', ''LANG=C.UTF-8'']"
    by (simp_all add: lb eb c)
  from a have "map Env ?a = [[''PATH=/usr/bin'', ''LANG=en_US.UTF-8'', ''TERM=xterm-256color'', ''HOME=/home/ssm-user'']]"
    by (cases ?a) auto
  moreover from b have "map Env ?b = [[''PATH=/usr/bin'', ''TERM=xterm-256color'', ''HOME=/home/ssm-user'', ''LANG=C.UTF-8'']]"
    by (cases ?b) auto
  ultimately show ?thesis by blast
qed

text \<open>A variable defined as the empty string is treated as unset.\<close>

lemma StartPty_empty_LANG:
  "map Env (ptyStarts (newEvents initial
      (snd (StartPty cfg0 (hostWith [''LANG=''] noSuchUser) False [] initial))))
     = [[''LANG='', ''TERM=xterm-256color'', ''HOME=/home/ssm-user'', ''LANG=C.UTF-8'']]"
  by code_simp


text \<open>
  Claim C3. When \<open>runAsSsmUser\<close> is set and credential resolution returns an error,
  \<open>StartPty\<close> returns that error unchanged with nil handles, and its state is the one
  resolution left: no command was handed to \<open>pty.Start\<close>, no file was opened, no child
  started, \<open>ptyFile\<close> is unchanged. When resolution succeeds, the command handed to
  \<open>pty.Start\<close> carries the resolved uid, gid and groups as its credential, with
  \<open>NoSetGroups\<close> false, so that the supplementary groups are set to the resolved list.
\<close>

theorem StartPty_credentials:
  "(getUserCredentials cfg h (CreateLocalAdminUser s) = (Returns (uid, gid, groups, Some err), s1) \<longrightarrow>
      StartPty cfg h True shellCmd s = (Returns (None, None, Some err), s1) \<and>
      ptyStarts (newEvents s s1) = [] \<and>
      openFiles s1 = openFiles s \<and> children s1 = children s \<and> ptyFile s1 = ptyFile s) \<and>
   (getUserCredentials cfg h (CreateLocalAdminUser s) = (Returns (uid, gid, groups, None), s1) \<longrightarrow>
      map SysProcAttrCredential
        (ptyStarts (newEvents s (snd (StartPty cfg h True shellCmd s)))) =
      [Some \<lparr>Uid = uid, Gid = gid, Groups = groups, NoSetGroups = False\<rparr>])"
proof (intro conjI impI)
  assume run: "getUserCredentials cfg h (CreateLocalAdminUser s) = (Returns (uid, gid, groups, Some err), s1)"
  from resolution_events[OF run] obtain qs where
    qs: "s1 = queried (CreateLocalAdminUser s) qs"
        "newEvents s s1 = EvCreateLocalAdminUser # map EvOutput qs"
    by blast
  show "StartPty cfg h True shellCmd s = (Returns (None, None, Some err), s1)"
    using run by (rule StartPty_True_error)
  show "ptyStarts (newEvents s s1) = []"
    by (simp add: qs(2) ptyStarts_EvOutput)
  show "openFiles s1 = openFiles s" "children s1 = children s" "ptyFile s1 = ptyFile s"
    by (simp_all add: qs(1) queried_def CreateLocalAdminUser_def record_event_def)
next
  assume run: "getUserCredentials cfg h (CreateLocalAdminUser s) = (Returns (uid, gid, groups, None), s1)"
  then show "map SysProcAttrCredential
        (ptyStarts (newEvents s (snd (StartPty cfg h True shellCmd s)))) =
      [Some \<lparr>Uid = uid, Gid = gid, Groups = groups, NoSetGroups = False\<rparr>]"
    by (simp add: StartPty_ptyStarts)
qed

theorem StartPty_credentials_witness:
  "StartPty cfg0 bareHost True [] initial =
     (Returns (None, None, Some (ExecError ''exit status 1'')),
      queried (CreateLocalAdminUser initial) [uidQuery cfg0]) \<and>
   map SysProcAttrCredential
     (ptyStarts (newEvents initial (snd (StartPty cfg0 healthyHost True [] initial)))) =
   [Some \<lparr>Uid = 1001, Gid = 1001, Groups = [1001, 1004], NoSetGroups = False\<rparr>]"
proof -
  have bare: "getUserCredentials cfg0 bareHost (CreateLocalAdminUser initial) =
      (Returns (0, 0, [], Some (ExecError ''exit status 1'')),
       queried (CreateLocalAdminUser initial) [uidQuery cfg0])"
    by code_simp
  have healthy: "getUserCredentials cfg0 healthyHost (CreateLocalAdminUser initial) =
      (Returns (1001, 1001, [1001, 1004], None),
       queried (CreateLocalAdminUser initial)
         [uidQuery cfg0, gidQuery cfg0, groupsQuery cfg0, groupQuery cfg0 ''ssm-user'',
          groupQuery cfg0 (''test'' @ newLineCharacter)])"
    by code_simp
  from StartPty_credentials[of cfg0 bareHost initial 0 0 "[]" "ExecError ''exit status 1''" _ "[]"] bare
  have "StartPty cfg0 bareHost True [] initial =
     (Returns (None, None, Some (ExecError ''exit status 1'')),
      queried (CreateLocalAdminUser initial) [uidQuery cfg0])"
    by blast
  moreover
  from StartPty_credentials[of cfg0 healthyHost initial 1001 1001 "[1001, 1004]" _ _ "[]"] healthy
  have "map SysProcAttrCredential
     (ptyStarts (newEvents initial (snd (StartPty cfg0 healthyHost True [] initial)))) =
   [Some \<lparr>Uid = 1001, Gid = 1001, Groups = [1001, 1004], NoSetGroups = False\<rparr>]"
    by blast
  ultimately show ?thesis by blast
qed

subsection \<open>Recording a session\<close>

lemma StartPty_False_returns:
  "\<exists>i err s1. StartPty cfg h False shellCmd s = (Returns (i, i, err), s1) \<and> (err = None \<longleftrightarrow> i \<noteq> None)"
  by (simp add: StartPty_False startCmd_unfold split: option.splits)

text \<open>
  Claim C6. When the disposable session fails to start, \<open>generateLogData\<close> returns the
  error of \<open>StartPty\<close> in the state \<open>StartPty\<close> left, so that nothing was written.
  When the session starts, \<open>generateLogData\<close> returns no error, and after the start it
  performs, in this order and separated by the fixed delays: the write of the
  buffer-enlarging command, of the record command, of the logger command, of three exit
  commands, and the close of the PTY input. The results of the writes and of the close
  are discarded, so that this holds whether or not they succeed.
\<close>

theorem generateLogData_script:
  "(StartPty cfg h False [] s = (Returns (shadowShellInput, out, Some err), s1) \<longrightarrow>
      generateLogData p cfg h s = (Returns (Some err), s1)) \<and>
   (StartPty cfg h False [] s = (Returns (shadowShellInput, out, None), s1) \<longrightarrow>
      fst (generateLogData p cfg h s) = Returns None \<and>
      newEvents s1 (snd (generateLogData p cfg h s)) =
        [EvSleep 5,
         EvWrite shadowShellInput
           (''screen -h '' @ showInt (ScreenBufferSize cfg) @ newLineCharacter),
         EvSleep 5,
         EvWrite shadowShellInput
           (startRecordSessionCmd @ '' '' @ logFilePath p @ newLineCharacter),
         EvSleep 5,
         EvWrite shadowShellInput
           (DefaultSessionLogger cfg @ '' '' @ ipcFilePath p @ '' false'' @ newLineCharacter),
         EvSleep 60,
         EvWrite shadowShellInput (Exit cfg @ newLineCharacter),
         EvSleep 30,
         EvWrite shadowShellInput (Exit cfg @ newLineCharacter),
         EvSleep 5,
         EvWrite shadowShellInput (Exit cfg @ newLineCharacter),
         EvSleep 5,
         EvClose shadowShellInput,
         EvSleep 15])"
proof (intro conjI impI)
  assume "StartPty cfg h False [] s = (Returns (shadowShellInput, out, Some err), s1)"
  then show "generateLogData p cfg h s = (Returns (Some err), s1)"
    by (simp add: generateLogData_def)
next
  assume st: "StartPty cfg h False [] s = (Returns (shadowShellInput, out, None), s1)"
  then show "fst (generateLogData p cfg h s) = Returns None"
    by (simp add: generateLogData_def Let_def)
  have close: "trace (snd (File_Close h fo x)) = trace x @ [EvClose fo]" for fo x
    by (simp add: File_Close_def record_event_def split: option.splits)
  show "newEvents s1 (snd (generateLogData p cfg h s)) =
        [EvSleep 5,
         EvWrite shadowShellInput
           (''screen -h '' @ showInt (ScreenBufferSize cfg) @ newLineCharacter),
         EvSleep 5,
         EvWrite shadowShellInput
           (startRecordSessionCmd @ '' '' @ logFilePath p @ newLineCharacter),
         EvSleep 5,
         EvWrite shadowShellInput
           (DefaultSessionLogger cfg @ '' '' @ ipcFilePath p @ '' false'' @ newLineCharacter),
         EvSleep 60,
         EvWrite shadowShellInput (Exit cfg @ newLineCharacter),
         EvSleep 30,
         EvWrite shadowShellInput (Exit cfg @ newLineCharacter),
         EvSleep 5,
         EvWrite shadowShellInput (Exit cfg @ newLineCharacter),
         EvSleep 5,
         EvClose shadowShellInput,
         EvSleep 15]"
    using st
    by (simp add: generateLogData_def Let_def newEvents_def Sleep_def File_Write_def
        record_event_def close)
qed

theorem generateLogData_script_witness:
  "generateLogData plugin0 cfg0 noPtyHost initial =
     (Returns (Some (ErrorString (''Failed to start pty: no such file or directory'' @ newLineCharacter))),
      snd (StartPty cfg0 noPtyHost False [] initial)) \<and>
   fst (generateLogData plugin0 cfg0 bareHost initial) = Returns None \<and>
   newEvents (snd (StartPty cfg0 bareHost False [] initial))
     (snd (generateLogData plugin0 cfg0 bareHost initial)) =
     [EvSleep 5, EvWrite (Some 0) (''screen -h 30000'' @ newLineCharacter),
      EvSleep 5, EvWrite (Some 0) (''script /var/log/session.log'' @ newLineCharacter),
      EvSleep 5,
      EvWrite (Some 0) (''ssm-session-logger /var/lib/session.ipc false'' @ newLineCharacter),
      EvSleep 60, EvWrite (Some 0) (''exit'' @ newLineCharacter),
      EvSleep 30, EvWrite (Some 0) (''exit'' @ newLineCharacter),
      EvSleep 5, EvWrite (Some 0) (''exit'' @ newLineCharacter),
      EvSleep 5, EvClose (Some 0), EvSleep 15]"
proof -
  have f: "fst (StartPty cfg0 noPtyHost False [] initial) =
      Returns (None, None,
        Some (ErrorString (''Failed to start pty: no such file or directory'' @ newLineCharacter)))"
    by code_simp
  then have fail: "StartPty cfg0 noPtyHost False [] initial =
      (Returns (None, None,
         Some (ErrorString (''Failed to start pty: no such file or directory'' @ newLineCharacter))),
       snd (StartPty cfg0 noPtyHost False [] initial))"
    by (metis prod.collapse)
  have "fst (StartPty cfg0 bareHost False [] initial) = Returns (Some 0, Some 0, None)"
    by code_simp
  then have ok: "StartPty cfg0 bareHost False [] initial =
      (Returns (Some 0, Some 0, None), snd (StartPty cfg0 bareHost False [] initial))"
    by (metis prod.collapse)
  have c: "showInt (ScreenBufferSize cfg0) = ''30000''" "startRecordSessionCmd = ''script''"
    "logFilePath plugin0 = ''/var/log/session.log''" "ipcFilePath plugin0 = ''/var/lib/session.ipc''"
    "DefaultSessionLogger cfg0 = ''ssm-session-logger''" "Exit cfg0 = ''exit''"
    by code_simp+
  from generateLogData_script[of cfg0 noPtyHost initial None None _ _ plugin0] fail
  have a: "generateLogData plugin0 cfg0 noPtyHost initial =
     (Returns (Some (ErrorString (''Failed to start pty: no such file or directory'' @ newLineCharacter))),
      snd (StartPty cfg0 noPtyHost False [] initial))"
    by blast
  from generateLogData_script[of cfg0 bareHost initial "Some 0" "Some 0" _ _ plugin0] ok
  have b: "fst (generateLogData plugin0 cfg0 bareHost initial) = Returns None \<and>
      newEvents (snd (StartPty cfg0 bareHost False [] initial))
        (snd (generateLogData plugin0 cfg0 bareHost initial)) =
        [EvSleep 5,
         EvWrite (Some 0)
           (''screen -h '' @ showInt (ScreenBufferSize cfg0) @ newLineCharacter),
         EvSleep 5,
         EvWrite (Some 0)
           (startRecordSessionCmd @ '' '' @ logFilePath plugin0 @ newLineCharacter),
         EvSleep 5,
         EvWrite (Some 0)
           (DefaultSessionLogger cfg0 @ '' '' @ ipcFilePath plugin0 @ '' false'' @ newLineCharacter),
         EvSleep 60,
         EvWrite (Some 0) (Exit cfg0 @ newLineCharacter),
         EvSleep 30,
         EvWrite (Some 0) (Exit cfg0 @ newLineCharacter),
         EvSleep 5,
         EvWrite (Some 0) (Exit cfg0 @ newLineCharacter),
         EvSleep 5,
         EvClose (Some 0),
         EvSleep 15]"
    by blast
  from a b show ?thesis by (simp add: c)
qed

subsection \<open>Calls in sequence\<close>

lemma startCmd_step:
  "\<exists>es. trace (snd (startCmd h cmd s)) = trace s @ es \<and>
        (startedFiles es = [] \<longrightarrow> ptyFile (snd (startCmd h cmd s)) = None)"
  by (simp add: startCmd_unfold record_event_def split: option.splits)

lemma StartPty_step:
  "\<exists>es. trace (snd (StartPty cfg h runAsSsmUser shellCmd s)) = trace s @ es \<and>
        (startedFiles es = [] \<longrightarrow>
           ptyFile (snd (StartPty cfg h runAsSsmUser shellCmd s)) \<in> {ptyFile s, None})"
proof (cases runAsSsmUser)
  case False
  then show ?thesis
    using startCmd_step[of h "buildCmd cfg h shellCmd" s]
    by (auto simp: StartPty_False)
next
  case True
  obtain r s1 where run: "getUserCredentials cfg h (CreateLocalAdminUser s) = (r, s1)"
    by (cases "getUserCredentials cfg h (CreateLocalAdminUser s)")
  from resolution_events[OF run] obtain qs where
    qs: "s1 = queried (CreateLocalAdminUser s) qs" by blast
  have tr: "trace s1 = trace s @ EvCreateLocalAdminUser # map EvOutput qs"
    and pf: "ptyFile s1 = ptyFile s"
    by (simp_all add: qs queried_def CreateLocalAdminUser_def record_event_def)
  have stay: ?thesis if "snd (StartPty cfg h runAsSsmUser shellCmd s) = s1"
    using that tr pf by simp
  show ?thesis
  proof (cases r)
    case (Panics p)
    with True run show ?thesis by (intro stay) (simp add: StartPty_True_panic)
  next
    case (Returns c)
    obtain uid gid groups e where c: "c = (uid, gid, groups, e)" by (cases c) auto
    show ?thesis
    proof (cases e)
      case (Some err)
      with True run Returns c show ?thesis by (intro stay) (simp add: StartPty_True_error)
    next
      case None
      let ?cmd = "(buildCmd cfg h shellCmd)\<lparr>SysProcAttrCredential :=
        Some \<lparr>Uid = uid, Gid = gid, Groups = groups, NoSetGroups = False\<rparr>\<rparr>"
      from None True run Returns c
      have eq: "StartPty cfg h runAsSsmUser shellCmd s = startCmd h ?cmd s1"
        by (simp add: StartPty_True_resolved)
      from startCmd_step[of h ?cmd s1] obtain es where
        es: "trace (snd (startCmd h ?cmd s1)) = trace s1 @ es"
            "startedFiles es = [] \<longrightarrow> ptyFile (snd (startCmd h ?cmd s1)) = None"
        by blast
      show ?thesis
        unfolding eq using es tr
        by (intro exI[of _ "(EvCreateLocalAdminUser # map EvOutput qs) @ es"])
           (simp add: startedFiles_append)
    qed
  qed
qed

lemma Stop_step:
  "trace (snd (Stop h s)) = trace s @ [EvClose (ptyFile s)] \<and> ptyFile (snd (Stop h s)) = ptyFile s"
  by (simp add: Stop_def File_Close_def record_event_def split: option.splits prod.splits if_splits)

lemma SetSize_step:
  "trace (snd (SetSize h ws_col ws_row s)) =
     trace s @ [EvSetsize (ptyFile s) \<lparr>Rows = ucast ws_row, Cols = ucast ws_col, X = 0, Y = 0\<rparr>] \<and>
   ptyFile (snd (SetSize h ws_col ws_row s)) = ptyFile s"
  by (simp add: SetSize_def pty_Setsize_def record_event_def Let_def
      split: option.splits prod.splits if_splits)

lemma generateLogData_step:
  "\<exists>es. trace (snd (generateLogData p cfg h s)) = trace s @ es \<and>
        (startedFiles es = [] \<longrightarrow> ptyFile (snd (generateLogData p cfg h s)) \<in> {ptyFile s, None})"
proof -
  obtain r s1 where st: "StartPty cfg h False [] s = (r, s1)"
    by (cases "StartPty cfg h False [] s")
  from StartPty_step[of cfg h False "[]" s] st obtain es where
    es: "trace s1 = trace s @ es" "startedFiles es = [] \<longrightarrow> ptyFile s1 \<in> {ptyFile s, None}"
    by auto
  have close: "trace (snd (File_Close h fo x)) = trace x @ [EvClose fo] \<and>
               ptyFile (snd (File_Close h fo x)) = ptyFile x" for fo x
    by (simp add: File_Close_def record_event_def split: option.splits)
  show ?thesis
  proof (cases r)
    case (Panics pn)
    with st es show ?thesis by (simp add: generateLogData_def)
  next
    case (Returns c)
    obtain i out e where c: "c = (i, out, e)" by (cases c) auto
    show ?thesis
    proof (cases e)
      case (Some err)
      with st es Returns c show ?thesis by (simp add: generateLogData_def)
    next
      case None
      with st Returns c have
        "\<exists>es'. trace (snd (generateLogData p cfg h s)) = trace s1 @ es' \<and> startedFiles es' = [] \<and>
           ptyFile (snd (generateLogData p cfg h s)) = ptyFile s1"
        by (simp add: generateLogData_def Let_def Sleep_def File_Write_def record_event_def close)
      then obtain es' where es': "trace (snd (generateLogData p cfg h s)) = trace s1 @ es'"
        "startedFiles es' = []" "ptyFile (snd (generateLogData p cfg h s)) = ptyFile s1"
        by blast
      with es show ?thesis
        by (intro exI[of _ "es @ es'"]) (simp add: startedFiles_append)
    qed
  qed
qed

lemma unstarted_step:
  assumes inv: "unstarted s \<longrightarrow> ptyFile s = None"
    and step: "\<exists>es. trace s' = trace s @ es \<and> (startedFiles es = [] \<longrightarrow> ptyFile s' \<in> {ptyFile s, None})"
  shows "unstarted s' \<longrightarrow> ptyFile s' = None"
  using assms by (auto simp: unstarted_def startedFiles_append)

lemma run_unstarted:
  "(unstarted s \<longrightarrow> ptyFile s = None) \<Longrightarrow>
   unstarted (run cfg h calls s) \<longrightarrow> ptyFile (run cfg h calls s) = None"
proof (induction calls arbitrary: s)
  case Nil
  then show ?case by simp
next
  case (Cons c calls)
  show ?case
  proof (cases c)
    case (CallStartPty runAsSsmUser shellCmd)
    show ?thesis unfolding CallStartPty run.simps
      by (rule Cons.IH, rule unstarted_step[OF Cons.prems], rule StartPty_step)
  next
    case CallStop
    show ?thesis unfolding CallStop run.simps
      by (rule Cons.IH, rule unstarted_step[OF Cons.prems]) (simp add: Stop_step)
  next
    case (CallSetSize ws_col ws_row)
    show ?thesis unfolding CallSetSize run.simps
      by (rule Cons.IH, rule unstarted_step[OF Cons.prems]) (simp add: SetSize_step)
  next
    case (CallGenerateLogData p)
    show ?thesis unfolding CallGenerateLogData run.simps
      by (rule Cons.IH, rule unstarted_step[OF Cons.prems], rule generateLogData_step)
  qed
qed

lemma SetSize_nil:
  "ptyFile s = None \<Longrightarrow>
   fst (SetSize h ws_col ws_row s) = Some (ErrorString ''set pty size failed: bad file descriptor'')"
  by (simp add: SetSize_def pty_Setsize_def Let_def)

subsection \<open>Resizing and stopping\<close>

text \<open>
  Claim C7. After any sequence of calls of the package in which no \<open>pty.Start\<close> has
  succeeded (in particular in the initial state), \<open>ptyFile\<close> is nil and \<open>SetSize\<close>,
  for every pair of columns and rows, returns the error
  \<open>set pty size failed: ...\<close>; it neither succeeds nor panics.
\<close>

theorem SetSize_before_Start:
  assumes "unstarted (run cfg h calls initial)"
  shows "\<exists>msg. fst (SetSize h ws_col ws_row (run cfg h calls initial)) =
           Some (ErrorString (''set pty size failed: '' @ msg))"
proof -
  have "unstarted initial \<longrightarrow> ptyFile initial = None"
    by (simp add: initial_def)
  from run_unstarted[OF this, of cfg h calls] assms
  have "ptyFile (run cfg h calls initial) = None" by blast
  from SetSize_nil[OF this] show ?thesis by simp
qed

theorem SetSize_before_Start_witness:
  "unstarted (run cfg0 bareHost [CallStartPty True [], CallStop] initial) \<and>
   fst (SetSize bareHost 80 24 (run cfg0 bareHost [CallStartPty True [], CallStop] initial)) =
     Some (ErrorString ''set pty size failed: bad file descriptor'') \<and>
   fst (SetSize bareHost 80 24 initial) =
     Some (ErrorString ''set pty size failed: bad file descriptor'')"
proof -
  have u: "unstarted (run cfg0 bareHost [CallStartPty True [], CallStop] initial)"
    by code_simp
  have u0: "unstarted (run cfg0 bareHost [] initial)"
    by code_simp
  have v: "fst (SetSize bareHost 80 24 (run cfg0 bareHost [CallStartPty True [], CallStop] initial)) =
     Some (ErrorString ''set pty size failed: bad file descriptor'')"
    by code_simp
  have v0: "fst (SetSize bareHost 80 24 initial) =
     Some (ErrorString ''set pty size failed: bad file descriptor'')"
    by code_simp
  from SetSize_before_Start[OF u, of 80 24] SetSize_before_Start[OF u0, of 80 24] u v v0
  show ?thesis by blast
qed

lemma SetSize_active:
  "ptyFile s = Some f \<Longrightarrow> f \<in> set (openFiles s) \<Longrightarrow> setsizeError h (now s) = None \<Longrightarrow>
   fst (SetSize h ws_col ws_row s) = None \<and>
   map_of (winsizes (snd (SetSize h ws_col ws_row s))) f =
     Some \<lparr>Rows = ucast ws_row, Cols = ucast ws_col, X = 0, Y = 0\<rparr>"
  by (simp add: SetSize_def pty_Setsize_def Let_def record_event_def)

lemma started_session:
  "ptyFile (snd (StartPty cfg0 bareHost False [] initial)) = Some 0 \<and>
   0 \<in> set (openFiles (snd (StartPty cfg0 bareHost False [] initial))) \<and>
   setsizeError bareHost (now (snd (StartPty cfg0 bareHost False [] initial))) = None"
  by code_simp

text \<open>
  Claim C8. \<open>Stop\<close> closes the file \<open>ptyFile\<close> holds: an open file is no longer open
  afterwards, the only interaction with the host is that close, and the children
  started on the PTY are left as they were, neither signalled nor waited for. Called
  when the file is closed already, and so when called a second time, \<open>Stop\<close> returns
  the error \<open>unable to close ptyFile. ...\<close>.
\<close>

theorem Stop_closes:
  "(ptyFile s = Some f \<and> f \<in> set (openFiles s) \<longrightarrow>
      f \<notin> set (openFiles (snd (Stop h s))) \<and>
      children (snd (Stop h s)) = children s \<and>
      newEvents s (snd (Stop h s)) = [EvClose (Some f)] \<and>
      fst (Stop h (snd (Stop h s))) =
        Some (ErrorString ''unable to close ptyFile. file already closed'')) \<and>
   (ptyFile s = Some f \<and> f \<notin> set (openFiles s) \<longrightarrow>
      fst (Stop h s) = Some (ErrorString ''unable to close ptyFile. file already closed'') \<and>
      openFiles (snd (Stop h s)) = openFiles s \<and>
      children (snd (Stop h s)) = children s)"
  by (auto simp: Stop_def File_Close_def record_event_def newEvents_def
      split: option.splits prod.splits)

theorem Stop_closes_witness:
  "openFiles (snd (StartPty cfg0 bareHost False [] initial)) = [0] \<and>
   fst (Stop bareHost (snd (StartPty cfg0 bareHost False [] initial))) = None \<and>
   openFiles (snd (Stop bareHost (snd (StartPty cfg0 bareHost False [] initial)))) = [] \<and>
   children (snd (Stop bareHost (snd (StartPty cfg0 bareHost False [] initial)))) =
     children (snd (StartPty cfg0 bareHost False [] initial)) \<and>
   fst (Stop bareHost (snd (Stop bareHost (snd (StartPty cfg0 bareHost False [] initial))))) =
     Some (ErrorString ''unable to close ptyFile. file already closed'')"
proof -
  let ?s = "snd (StartPty cfg0 bareHost False [] initial)"
  have a: "ptyFile ?s = Some 0 \<and> 0 \<in> set (openFiles ?s)" by code_simp
  have b: "ptyFile (snd (Stop bareHost ?s)) = Some 0 \<and> 0 \<notin> set (openFiles (snd (Stop bareHost ?s)))"
    by code_simp
  have c: "openFiles ?s = [0]" "fst (Stop bareHost ?s) = None" "openFiles (snd (Stop bareHost ?s)) = []"
    by code_simp+
  from Stop_closes[of ?s 0 bareHost] a
  have "children (snd (Stop bareHost ?s)) = children ?s"
    by blast
  moreover from Stop_closes[of "snd (Stop bareHost ?s)" 0 bareHost] b
  have "fst (Stop bareHost (snd (Stop bareHost ?s))) =
     Some (ErrorString ''unable to close ptyFile. file already closed'')"
    by blast
  ultimately show ?thesis using c by blast
qed

text \<open>
  Claim C9, as stated, fails: \<open>SetSize\<close> converts the columns and rows from
  \<open>uint32\<close> to \<open>uint16\<close>, so that 65616 columns are applied as 80.
\<close>

theorem SetSize_exact_counterexample:
  "map_of (winsizes (snd (SetSize bareHost 65616 24 (snd (StartPty cfg0 bareHost False [] initial))))) 0
     = Some \<lparr>Rows = 24, Cols = 80, X = 0, Y = 0\<rparr> \<and>
   unat (80 :: uint16) \<noteq> unat (65616 :: uint32)"
proof -
  have u: "(ucast (65616 :: uint32) :: uint16) = 80" "(ucast (24 :: uint32) :: uint16) = 24"
    by simp_all
  from started_session SetSize_active[of "snd (StartPty cfg0 bareHost False [] initial)" 0 bareHost 65616 24]
  show ?thesis unfolding u by simp
qed

text \<open>
  Claim C9, amended. \<open>SetSize\<close> hands \<open>pty.Setsize\<close> the window size whose columns
  and rows are the given values converted to \<open>uint16\<close>, that is, taken modulo 65536,
  with no validation of bounds (so exactly the given pair when both are below 65536);
  with an active session and a resize call that succeeds, that is the window size
  applied to the PTY device, and \<open>SetSize\<close> returns no error.
\<close>

theorem SetSize_window_size:
  "newEvents s (snd (SetSize h ws_col ws_row s)) =
     [EvSetsize (ptyFile s) \<lparr>Rows = ucast ws_row, Cols = ucast ws_col, X = 0, Y = 0\<rparr>] \<and>
   unat (ucast ws_col :: uint16) = unat ws_col mod 65536 \<and>
   unat (ucast ws_row :: uint16) = unat ws_row mod 65536 \<and>
   (ptyFile s = Some f \<and> f \<in> set (openFiles s) \<and> setsizeError h (now s) = None \<longrightarrow>
      fst (SetSize h ws_col ws_row s) = None \<and>
      map_of (winsizes (snd (SetSize h ws_col ws_row s))) f =
        Some \<lparr>Rows = ucast ws_row, Cols = ucast ws_col, X = 0, Y = 0\<rparr>)"
proof -
  have "unat (ucast ws_col :: uint16) = unat ws_col mod 65536"
    "unat (ucast ws_row :: uint16) = unat ws_row mod 65536"
    by (simp_all add: unsigned_ucast_eq take_bit_eq_mod)
  moreover have "newEvents s (snd (SetSize h ws_col ws_row s)) =
     [EvSetsize (ptyFile s) \<lparr>Rows = ucast ws_row, Cols = ucast ws_col, X = 0, Y = 0\<rparr>]"
    by (simp add: SetSize_step newEvents_def)
  ultimately show ?thesis using SetSize_active[of s f h ws_col ws_row] by blast
qed

theorem SetSize_window_size_witness:
  "fst (SetSize bareHost 80 24 (snd (StartPty cfg0 bareHost False [] initial))) = None \<and>
   map_of (winsizes (snd (SetSize bareHost 80 24 (snd (StartPty cfg0 bareHost False [] initial))))) 0
     = Some \<lparr>Rows = 24, Cols = 80, X = 0, Y = 0\<rparr>"
proof -
  let ?s = "snd (StartPty cfg0 bareHost False [] initial)"
  have u: "(ucast (80 :: uint32) :: uint16) = 80" "(ucast (24 :: uint32) :: uint16) = 24"
    by simp_all
  from SetSize_window_size[of ?s bareHost 80 24 0] started_session
  show ?thesis unfolding u by blast
qed

end
